theory Spec2Isabelle
  imports Complex_Main
begin

section \<open>Illness catalog (illness\_types.py)\<close>

text \<open>
  Python floats are modelled as \<^typ>\<open>real\<close>: every timestamp, duration and severity is
  an exact real number, so comparisons and the division by 3600 carry no rounding.
  A Python \<open>str\<close> is a \<^typ>\<open>string\<close> holding its UTF-8 bytes; no function of the
  program measures the length of a string, only equality and emptiness matter.
\<close>

datatype IllnessType =
    SEVERE_COLD | MILD_COLD | TONSILLITIS | GASTROENTERITIS | SKIN_ALLERGY
  | MINOR_SCRATCH | HEADACHE | STIFF_NECK | ANKLE_SPRAIN | NOSEBLEED | MOUTH_ULCER

text \<open>The enum members' values, in UTF-8.\<close>

definition SEVERE_COLD_value :: string where
  "SEVERE_COLD_value = [
     CHR 0xE9, CHR 0x87, CHR 0x8D, CHR 0xE6, CHR 0x84, CHR 0x9F, CHR 0xE5, CHR 0x86,
     CHR 0x92]"

definition MILD_COLD_value :: string where
  "MILD_COLD_value = [
     CHR 0xE8, CHR 0xBD, CHR 0xBB, CHR 0xE6, CHR 0x84, CHR 0x9F, CHR 0xE5, CHR 0x86,
     CHR 0x92]"

definition TONSILLITIS_value :: string where
  "TONSILLITIS_value = [
     CHR 0xE6, CHR 0x89, CHR 0x81, CHR 0xE6, CHR 0xA1, CHR 0x83, CHR 0xE4, CHR 0xBD,
     CHR 0x93, CHR 0xE7, CHR 0x82, CHR 0x8E, CHR 0x2F, CHR 0xE5, CHR 0x92, CHR 0xBD,
     CHR 0xE7, CHR 0x82, CHR 0x8E]"

definition GASTROENTERITIS_value :: string where
  "GASTROENTERITIS_value = [
     CHR 0xE8, CHR 0x82, CHR 0xA0, CHR 0xE8, CHR 0x83, CHR 0x83, CHR 0xE4, CHR 0xB8,
     CHR 0x8D, CHR 0xE9, CHR 0x80, CHR 0x82, CHR 0x28, CHR 0xE8, CHR 0x85, CHR 0xB9,
     CHR 0xE6, CHR 0xB3, CHR 0xBB, CHR 0x29]"

definition SKIN_ALLERGY_value :: string where
  "SKIN_ALLERGY_value = [
     CHR 0xE7, CHR 0x9A, CHR 0xAE, CHR 0xE8, CHR 0x82, CHR 0xA4, CHR 0xE8, CHR 0xBF,
     CHR 0x87, CHR 0xE6, CHR 0x95, CHR 0x8F, CHR 0x2F, CHR 0xE7, CHR 0x9A, CHR 0xAE,
     CHR 0xE7, CHR 0x96, CHR 0xB9]"

definition MINOR_SCRATCH_value :: string where
  "MINOR_SCRATCH_value = [
     CHR 0xE8, CHR 0xBD, CHR 0xBB, CHR 0xE5, CHR 0xBE, CHR 0xAE, CHR 0xE6, CHR 0x93,
     CHR 0xA6, CHR 0xE4, CHR 0xBC, CHR 0xA4]"

definition HEADACHE_value :: string where
  "HEADACHE_value = [
     CHR 0xE8, CHR 0xBD, CHR 0xBB, CHR 0xE5, CHR 0xBE, CHR 0xAE, CHR 0xE5, CHR 0xA4,
     CHR 0xB4, CHR 0xE7, CHR 0x97, CHR 0x9B]"

definition STIFF_NECK_value :: string where
  "STIFF_NECK_value = [
     CHR 0xE8, CHR 0x90, CHR 0xBD, CHR 0xE6, CHR 0x9E, CHR 0x95]"

definition ANKLE_SPRAIN_value :: string where
  "ANKLE_SPRAIN_value = [
     CHR 0xE8, CHR 0x84, CHR 0x9A, CHR 0xE8, CHR 0xB8, CHR 0x9D, CHR 0xE6, CHR 0x89,
     CHR 0xAD, CHR 0xE4, CHR 0xBC, CHR 0xA4]"

definition NOSEBLEED_value :: string where
  "NOSEBLEED_value = [
     CHR 0xE9, CHR 0xBC, CHR 0xBB, CHR 0xE8, CHR 0xA1, CHR 0x80]"

definition MOUTH_ULCER_value :: string where
  "MOUTH_ULCER_value = [
     CHR 0xE5, CHR 0x8F, CHR 0xA3, CHR 0xE8, CHR 0x85, CHR 0x94, CHR 0xE6, CHR 0xBA,
     CHR 0x83, CHR 0xE7, CHR 0x96, CHR 0xA1]"

fun illness_type_value :: "IllnessType \<Rightarrow> string" where
  "illness_type_value SEVERE_COLD = SEVERE_COLD_value"
| "illness_type_value MILD_COLD = MILD_COLD_value"
| "illness_type_value TONSILLITIS = TONSILLITIS_value"
| "illness_type_value GASTROENTERITIS = GASTROENTERITIS_value"
| "illness_type_value SKIN_ALLERGY = SKIN_ALLERGY_value"
| "illness_type_value MINOR_SCRATCH = MINOR_SCRATCH_value"
| "illness_type_value HEADACHE = HEADACHE_value"
| "illness_type_value STIFF_NECK = STIFF_NECK_value"
| "illness_type_value ANKLE_SPRAIN = ANKLE_SPRAIN_value"
| "illness_type_value NOSEBLEED = NOSEBLEED_value"
| "illness_type_value MOUTH_ULCER = MOUTH_ULCER_value"

text \<open>\<open>list(IllnessType)\<close>: the members in definition order.\<close>

definition get_all_illness_types :: "IllnessType list" where
  "get_all_illness_types =
     [SEVERE_COLD, MILD_COLD, TONSILLITIS, GASTROENTERITIS, SKIN_ALLERGY,
      MINOR_SCRATCH, HEADACHE, STIFF_NECK, ANKLE_SPRAIN, NOSEBLEED, MOUTH_ULCER]"

text \<open>The exceptions the modelled code can meet.\<close>

datatype py_error = KeyError | ValueError | IndexError | StorageError

text \<open>
  The enum's constructor call \<open>IllnessType(v)\<close>: the member whose value is \<open>v\<close>,
  \<open>ValueError\<close> when there is none.
\<close>

definition IllnessType_of_value :: "string \<Rightarrow> py_error + IllnessType" where
  "IllnessType_of_value v =
     (case find (\<lambda>k. illness_type_value k = v) get_all_illness_types of
        None \<Rightarrow> Inl ValueError
      | Some k \<Rightarrow> Inr k)"

record IllnessInfo =
  illness_type :: IllnessType
  start_time :: real
  severity :: real
  stage :: string

text \<open>The symptom texts of \<open>ILLNESS_DESCRIPTIONS\<close>, in UTF-8.\<close>

definition SEVERE_COLD_description :: string where
  "SEVERE_COLD_description = [
     CHR 0xE7, CHR 0x9B, CHR 0xAE, CHR 0xE5, CHR 0x89, CHR 0x8D, CHR 0xE5, CHR 0x87,
     CHR 0xBA, CHR 0xE7, CHR 0x8E, CHR 0xB0, CHR 0xE8, CHR 0xBE, CHR 0x83, CHR 0xE4,
     CHR 0xB8, CHR 0xBA, CHR 0xE6, CHR 0x98, CHR 0x8E, CHR 0xE6, CHR 0x98, CHR 0xBE,
     CHR 0xE7, CHR 0x9A, CHR 0x84, CHR 0xE4, CHR 0xB8, CHR 0x8A, CHR 0xE5, CHR 0x91,
     CHR 0xBC, CHR 0xE5, CHR 0x90, CHR 0xB8, CHR 0xE9, CHR 0x81, CHR 0x93, CHR 0xE6,
     CHR 0x84, CHR 0x9F, CHR 0xE6, CHR 0x9F, CHR 0x93, CHR 0xE7, CHR 0x97, CHR 0x87,
     CHR 0xE7, CHR 0x8A, CHR 0xB6, CHR 0xEF, CHR 0xBC, CHR 0x8C, CHR 0xE5, CHR 0x8C,
     CHR 0x85, CHR 0xE6, CHR 0x8B, CHR 0xAC, CHR 0xEF, CHR 0xBC, CHR 0x9A, CHR 0xE9,
     CHR 0xBC, CHR 0xBB, CHR 0xE5, CHR 0xA1, CHR 0x9E, CHR 0xE3, CHR 0x80, CHR 0x81,
     CHR 0xE5, CHR 0x92, CHR 0xBD, CHR 0xE9, CHR 0x83, CHR 0xA8, CHR 0xE8, CHR 0xBD,
     CHR 0xBB, CHR 0xE5, CHR 0xBE, CHR 0xAE, CHR 0xE7, CHR 0x96, CHR 0xBC, CHR 0xE7,
     CHR 0x97, CHR 0x9B, CHR 0xE3, CHR 0x80, CHR 0x81, CHR 0xE5, CHR 0x8F, CHR 0xAF,
     CHR 0xE8, CHR 0x83, CHR 0xBD, CHR 0xE4, CHR 0xBC, CHR 0xB4, CHR 0xE6, CHR 0x9C,
     CHR 0x89, CHR 0xE4, CHR 0xBD, CHR 0x8E, CHR 0xE7, CHR 0x83, CHR 0xAD, CHR 0xEF,
     CHR 0xBC, CHR 0x88, CHR 0x33, CHR 0x37, CHR 0x2E, CHR 0x35, CHR 0x2D, CHR 0x33,
     CHR 0x38, CHR 0xE2, CHR 0x84, CHR 0x83, CHR 0xEF, CHR 0xBC, CHR 0x89, CHR 0xE3,
     CHR 0x80, CHR 0x82, CHR 0xE5, CHR 0xBB, CHR 0xBA, CHR 0xE8, CHR 0xAE, CHR 0xAE,
     CHR 0xE9, CHR 0x80, CHR 0x82, CHR 0xE5, CHR 0xBD, CHR 0x93, CHR 0xE4, CHR 0xBC,
     CHR 0x91, CHR 0xE6, CHR 0x81, CHR 0xAF, CHR 0xEF, CHR 0xBC, CHR 0x8C, CHR 0xE5,
     CHR 0xA4, CHR 0x9A, CHR 0xE8, CHR 0xA1, CHR 0xA5, CHR 0xE5, CHR 0x85, CHR 0x85,
     CHR 0xE6, CHR 0xB0, CHR 0xB4, CHR 0xE5, CHR 0x88, CHR 0x86, CHR 0xE3, CHR 0x80,
     CHR 0x82]"

definition MILD_COLD_description :: string where
  "MILD_COLD_description = [
     CHR 0xE5, CHR 0xBD, CHR 0x93, CHR 0xE5, CHR 0x89, CHR 0x8D, CHR 0xE6, CHR 0x9C,
     CHR 0x89, CHR 0xE8, CHR 0xBD, CHR 0xBB, CHR 0xE5, CHR 0xBE, CHR 0xAE, CHR 0xE6,
     CHR 0x84, CHR 0x9F, CHR 0xE5, CHR 0x86, CHR 0x92, CHR 0xE7, CHR 0x97, CHR 0x87,
     CHR 0xE7, CHR 0x8A, CHR 0xB6, CHR 0xEF, CHR 0xBC, CHR 0x8C, CHR 0xE4, CHR 0xB8,
     CHR 0xBB, CHR 0xE8, CHR 0xA6, CHR 0x81, CHR 0xE8, CHR 0xA1, CHR 0xA8, CHR 0xE7,
     CHR 0x8E, CHR 0xB0, CHR 0xE4, CHR 0xB8, CHR 0xBA, CHR 0xEF, CHR 0xBC, CHR 0x9A,
     CHR 0xE5, CHR 0x81, CHR 0xB6, CHR 0xE5, CHR 0x8F, CHR 0x91, CHR 0xE5, CHR 0x96,
     CHR 0xB7, CHR 0xE5, CHR 0x9A, CHR 0x8F, CHR 0xE3, CHR 0x80, CHR 0x81, CHR 0xE9,
     CHR 0xBC, CHR 0xBB, CHR 0xE5, CHR 0xA1, CHR 0x9E, CHR 0xE6, CHR 0x88, CHR 0x96,
     CHR 0xE8, CHR 0xBD, CHR 0xBB, CHR 0xE5, CHR 0xBE, CHR 0xAE, CHR 0xE6, CHR 0xB5,
     CHR 0x81, CHR 0xE6, CHR 0xB6, CHR 0x95, CHR 0xEF, CHR 0xBC, CHR 0x8C, CHR 0xE4,
     CHR 0xBD, CHR 0x93, CHR 0xE6, CHR 0xB8, CHR 0xA9, CHR 0xE6, CHR 0xAD, CHR 0xA3,
     CHR 0xE5, CHR 0xB8, CHR 0xB8, CHR 0xE3, CHR 0x80, CHR 0x82, CHR 0xE4, CHR 0xBF,
     CHR 0x9D, CHR 0xE6, CHR 0x8C, CHR 0x81, CHR 0xE5, CHR 0x85, CHR 0x85, CHR 0xE8,
     CHR 0xB6, CHR 0xB3, CHR 0xE7, CHR 0x9D, CHR 0xA1, CHR 0xE7, CHR 0x9C, CHR 0xA0,
     CHR 0xE5, CHR 0x8D, CHR 0xB3, CHR 0xE5, CHR 0x8F, CHR 0xAF, CHR 0xE3, CHR 0x80,
     CHR 0x82]"

definition TONSILLITIS_description :: string where
  "TONSILLITIS_description = [
     CHR 0xE5, CHR 0x92, CHR 0xBD, CHR 0xE9, CHR 0x83, CHR 0xA8, CHR 0xE6, CHR 0x88,
     CHR 0x96, CHR 0xE6, CHR 0x89, CHR 0x81, CHR 0xE6, CHR 0xA1, CHR 0x83, CHR 0xE4,
     CHR 0xBD, CHR 0x93, CHR 0xE5, CHR 0x8C, CHR 0xBA, CHR 0xE5, CHR 0x9F, CHR 0x9F,
     CHR 0xE6, CHR 0x9C, CHR 0x89, CHR 0xE8, CHR 0xBD, CHR 0xBB, CHR 0xE5, CHR 0xBE,
     CHR 0xAE, CHR 0xE7, CHR 0xBA, CHR 0xA2, CHR 0xE8, CHR 0x82, CHR 0xBF, CHR 0xEF,
     CHR 0xBC, CHR 0x8C, CHR 0xE5, CHR 0x90, CHR 0x9E, CHR 0xE5, CHR 0x92, CHR 0xBD,
     CHR 0xE6, CHR 0x97, CHR 0xB6, CHR 0xE5, CHR 0x8F, CHR 0xAF, CHR 0xE8, CHR 0x83,
     CHR 0xBD, CHR 0xE5, CHR 0x87, CHR 0xBA, CHR 0xE7, CHR 0x8E, CHR 0xB0, CHR 0xE8,
     CHR 0xBD, CHR 0xBB, CHR 0xE5, CHR 0xBE, CHR 0xAE, CHR 0xE4, CHR 0xB8, CHR 0x8D,
     CHR 0xE9, CHR 0x80, CHR 0x82, CHR 0xE6, CHR 0x84, CHR 0x9F, CHR 0xE3, CHR 0x80,
     CHR 0x82, CHR 0xE5, CHR 0x8F, CHR 0xAF, CHR 0xE5, CHR 0xB0, CHR 0x9D, CHR 0xE8,
     CHR 0xAF, CHR 0x95, CHR 0xE6, CHR 0xB8, CHR 0xA9, CHR 0xE7, CHR 0x9B, CHR 0x90,
     CHR 0xE6, CHR 0xB0, CHR 0xB4, CHR 0xE6, CHR 0xBC, CHR 0xB1, CHR 0xE5, CHR 0x8F,
     CHR 0xA3, CHR 0xEF, CHR 0xBC, CHR 0x8C, CHR 0xE9, CHR 0x81, CHR 0xBF, CHR 0xE5,
     CHR 0x85, CHR 0x8D, CHR 0xE8, CHR 0xBE, CHR 0x9B, CHR 0xE8, CHR 0xBE, CHR 0xA3,
     CHR 0xE5, CHR 0x88, CHR 0xBA, CHR 0xE6, CHR 0xBF, CHR 0x80, CHR 0xE9, CHR 0xA3,
     CHR 0x9F, CHR 0xE7, CHR 0x89, CHR 0xA9, CHR 0xE3, CHR 0x80, CHR 0x82]"

definition GASTROENTERITIS_description :: string where
  "GASTROENTERITIS_description = [
     CHR 0xE8, CHR 0x83, CHR 0x83, CHR 0xE8, CHR 0x82, CHR 0xA0, CHR 0xE9, CHR 0x81,
     CHR 0x93, CHR 0xE5, CHR 0x8A, CHR 0x9F, CHR 0xE8, CHR 0x83, CHR 0xBD, CHR 0xE5,
     CHR 0x87, CHR 0xBA, CHR 0xE7, CHR 0x8E, CHR 0xB0, CHR 0xE6, CHR 0x9A, CHR 0x82,
     CHR 0xE6, CHR 0x97, CHR 0xB6, CHR 0xE6, CHR 0x80, CHR 0xA7, CHR 0xE7, CHR 0xB4,
     CHR 0x8A, CHR 0xE4, CHR 0xB9, CHR 0xB1, CHR 0xEF, CHR 0xBC, CHR 0x8C, CHR 0xE8,
     CHR 0xA1, CHR 0xA8, CHR 0xE7, CHR 0x8E, CHR 0xB0, CHR 0xE4, CHR 0xB8, CHR 0xBA,
     CHR 0xE8, CHR 0xBD, CHR 0xBB, CHR 0xE5, CHR 0xBE, CHR 0xAE, CHR 0xE8, CHR 0x85,
     CHR 0xB9, CHR 0xE7, CHR 0x97, CHR 0x9B, CHR 0xE6, CHR 0x88, CHR 0x96, CHR 0xE8,
     CHR 0x85, CHR 0xB9, CHR 0xE6, CHR 0xB3, CHR 0xBB, CHR 0xEF, CHR 0xBC, CHR 0x8C,
     CHR 0xE6, CHR 0xAF, CHR 0x8F, CHR 0xE6, CHR 0x97, CHR 0xA5, CHR 0xE6, CHR 0x8E,
     CHR 0x92, CHR 0xE4, CHR 0xBE, CHR 0xBF, CHR 0xE6, CHR 0xAC, CHR 0xA1, CHR 0xE6,
     CHR 0x95, CHR 0xB0, CHR 0xE7, CHR 0x95, CHR 0xA5, CHR 0xE6, CHR 0x9C, CHR 0x89,
     CHR 0xE5, CHR 0xA2, CHR 0x9E, CHR 0xE5, CHR 0x8A, CHR 0xA0, CHR 0xE3, CHR 0x80,
     CHR 0x82, CHR 0xE5, CHR 0xBB, CHR 0xBA, CHR 0xE8, CHR 0xAE, CHR 0xAE, CHR 0xE6,
     CHR 0xB8, CHR 0x85, CHR 0xE6, CHR 0xB7, CHR 0xA1, CHR 0xE9, CHR 0xA5, CHR 0xAE,
     CHR 0xE9, CHR 0xA3, CHR 0x9F, CHR 0xEF, CHR 0xBC, CHR 0x8C, CHR 0xE9, CHR 0x81,
     CHR 0xBF, CHR 0xE5, CHR 0x85, CHR 0x8D, CHR 0xE7, CHR 0x94, CHR 0x9F, CHR 0xE5,
     CHR 0x86, CHR 0xB7, CHR 0xE6, CHR 0xB2, CHR 0xB9, CHR 0xE8, CHR 0x85, CHR 0xBB,
     CHR 0xE3, CHR 0x80, CHR 0x82]"

definition SKIN_ALLERGY_description :: string where
  "SKIN_ALLERGY_description = [
     CHR 0xE7, CHR 0x9A, CHR 0xAE, CHR 0xE8, CHR 0x82, CHR 0xA4, CHR 0xE5, CHR 0x87,
     CHR 0xBA, CHR 0xE7, CHR 0x8E, CHR 0xB0, CHR 0xE5, CHR 0xB1, CHR 0x80, CHR 0xE9,
     CHR 0x83, CHR 0xA8, CHR 0xE8, CHR 0xBD, CHR 0xBB, CHR 0xE5, CHR 0xBE, CHR 0xAE,
     CHR 0xE7, CHR 0xBA, CHR 0xA2, CHR 0xE7, CHR 0x96, CHR 0xB9, CHR 0xE6, CHR 0x88,
     CHR 0x96, CHR 0xE5, CHR 0xB0, CHR 0x8F, CHR 0xE8, CHR 0x8C, CHR 0x83, CHR 0xE5,
     CHR 0x9B, CHR 0xB4, CHR 0xE8, CHR 0x8D, CHR 0xA8, CHR 0xE9, CHR 0xBA, CHR 0xBB,
     CHR 0xE7, CHR 0x96, CHR 0xB9, CHR 0xE6, CHR 0xA0, CHR 0xB7, CHR 0xE6, CHR 0x94,
     CHR 0xB9, CHR 0xE5, CHR 0x8F, CHR 0x98, CHR 0xEF, CHR 0xBC, CHR 0x8C, CHR 0xE4,
     CHR 0xBC, CHR 0xB4, CHR 0xE6, CHR 0x9C, CHR 0x89, CHR 0xE8, CHR 0xBD, CHR 0xBB,
     CHR 0xE5, CHR 0xBA, CHR 0xA6, CHR 0xE7, CHR 0x98, CHR 0x99, CHR 0xE7, CHR 0x97,
     CHR 0x92, CHR 0xE3, CHR 0x80, CHR 0x82, CHR 0xE5, CHR 0xBB, CHR 0xBA, CHR 0xE8,
     CHR 0xAE, CHR 0xAE, CHR 0xE9, CHR 0x81, CHR 0xBF, CHR 0xE5, CHR 0x85, CHR 0x8D,
     CHR 0xE6, CHR 0x90, CHR 0x94, CHR 0xE6, CHR 0x8A, CHR 0x93, CHR 0xEF, CHR 0xBC,
     CHR 0x8C, CHR 0xE7, CHR 0xA9, CHR 0xBF, CHR 0xE7, CHR 0x9D, CHR 0x80, CHR 0xE5,
     CHR 0xAE, CHR 0xBD, CHR 0xE6, CHR 0x9D, CHR 0xBE, CHR 0xE6, CHR 0xA3, CHR 0x89,
     CHR 0xE8, CHR 0xB4, CHR 0xA8, CHR 0xE8, CHR 0xA1, CHR 0xA3, CHR 0xE7, CHR 0x89,
     CHR 0xA9, CHR 0xE3, CHR 0x80, CHR 0x82]"

definition MINOR_SCRATCH_description :: string where
  "MINOR_SCRATCH_description = [
     CHR 0xE7, CHR 0x9A, CHR 0xAE, CHR 0xE8, CHR 0x82, CHR 0xA4, CHR 0xE8, CHR 0xA1,
     CHR 0xA8, CHR 0xE5, CHR 0xB1, CHR 0x82, CHR 0xE6, CHR 0x9C, CHR 0x89, CHR 0xE8,
     CHR 0xBD, CHR 0xBB, CHR 0xE5, CHR 0xBE, CHR 0xAE, CHR 0xE6, CHR 0x93, CHR 0xA6,
     CHR 0xE4, CHR 0xBC, CHR 0xA4, CHR 0xEF, CHR 0xBC, CHR 0x8C, CHR 0xE8, CHR 0x8C,
     CHR 0x83, CHR 0xE5, CHR 0x9B, CHR 0xB4, CHR 0xE8, CHR 0xBE, CHR 0x83, CHR 0xE5,
     CHR 0xB0, CHR 0x8F, CHR 0xEF, CHR 0xBC, CHR 0x8C, CHR 0xE8, CHR 0xA1, CHR 0xA8,
     CHR 0xE7, CHR 0x9A, CHR 0xAE, CHR 0xE7, CHR 0x95, CHR 0xA5, CHR 0xE6, CHR 0x9C,
     CHR 0x89, CHR 0xE7, CHR 0xA0, CHR 0xB4, CHR 0xE6, CHR 0x8D, CHR 0x9F, CHR 0xEF,
     CHR 0xBC, CHR 0x8C, CHR 0xE6, CHR 0x97, CHR 0xA0, CHR 0xE6, CHR 0xB4, CHR 0xBB,
     CHR 0xE5, CHR 0x8A, CHR 0xA8, CHR 0xE6, CHR 0x80, CHR 0xA7, CHR 0xE5, CHR 0x87,
     CHR 0xBA, CHR 0xE8, CHR 0xA1, CHR 0x80, CHR 0xE3, CHR 0x80, CHR 0x82, CHR 0xE4,
     CHR 0xBF, CHR 0x9D, CHR 0xE6, CHR 0x8C, CHR 0x81, CHR 0xE5, CHR 0xB1, CHR 0x80,
     CHR 0xE9, CHR 0x83, CHR 0xA8, CHR 0xE6, CHR 0xB8, CHR 0x85, CHR 0xE6, CHR 0xB4,
     CHR 0x81, CHR 0xE5, CHR 0xB9, CHR 0xB2, CHR 0xE7, CHR 0x87, CHR 0xA5, CHR 0xE5,
     CHR 0x8D, CHR 0xB3, CHR 0xE5, CHR 0x8F, CHR 0xAF, CHR 0xE3, CHR 0x80, CHR 0x82]"

definition HEADACHE_description :: string where
  "HEADACHE_description = [
     CHR 0xE5, CHR 0xA4, CHR 0xB4, CHR 0xE9, CHR 0x83, CHR 0xA8, CHR 0xE5, CHR 0x87,
     CHR 0xBA, CHR 0xE7, CHR 0x8E, CHR 0xB0, CHR 0xE8, CHR 0xBD, CHR 0xBB, CHR 0xE5,
     CHR 0xBE, CHR 0xAE, CHR 0xE8, CHR 0x83, CHR 0x80, CHR 0xE7, CHR 0x97, CHR 0x9B,
     CHR 0xE6, CHR 0x88, CHR 0x96, CHR 0xE9, CHR 0x92, CHR 0x9D, CHR 0xE7, CHR 0x97,
     CHR 0x9B, CHR 0xE6, CHR 0x84, CHR 0x9F, CHR 0xEF, CHR 0xBC, CHR 0x8C, CHR 0xE9,
     CHR 0x83, CHR 0xA8, CHR 0xE4, CHR 0xBD, CHR 0x8D, CHR 0xE4, CHR 0xB8, CHR 0x8D,
     CHR 0xE5, CHR 0x9B, CHR 0xBA, CHR 0xE5, CHR 0xAE, CHR 0x9A, CHR 0xEF, CHR 0xBC,
     CHR 0x8C, CHR 0xE7, CHR 0xA8, CHR 0x8B, CHR 0xE5, CHR 0xBA, CHR 0xA6, CHR 0xE4,
     CHR 0xB8, CHR 0x8D, CHR 0xE5, CHR 0xBD, CHR 0xB1, CHR 0xE5, CHR 0x93, CHR 0x8D,
     CHR 0xE6, CHR 0x97, CHR 0xA5, CHR 0xE5, CHR 0xB8, CHR 0xB8, CHR 0xE6, CHR 0xB4,
     CHR 0xBB, CHR 0xE5, CHR 0x8A, CHR 0xA8, CHR 0xE3, CHR 0x80, CHR 0x82, CHR 0xE5,
     CHR 0x8F, CHR 0xAF, CHR 0xE5, CHR 0xB0, CHR 0x9D, CHR 0xE8, CHR 0xAF, CHR 0x95,
     CHR 0xE9, CHR 0x97, CHR 0xAD, CHR 0xE7, CHR 0x9B, CHR 0xAE, CHR 0xE4, CHR 0xBC,
     CHR 0x91, CHR 0xE6, CHR 0x81, CHR 0xAF, CHR 0xE7, CHR 0x89, CHR 0x87, CHR 0xE5,
     CHR 0x88, CHR 0xBB, CHR 0xE3, CHR 0x80, CHR 0x82]"

definition STIFF_NECK_description :: string where
  "STIFF_NECK_description = [
     CHR 0xE9, CHR 0xA2, CHR 0x88, CHR 0xE9, CHR 0x83, CHR 0xA8, CHR 0xE4, CHR 0xB8,
     CHR 0x80, CHR 0xE4, CHR 0xBE, CHR 0xA7, CHR 0xE8, CHR 0x82, CHR 0x8C, CHR 0xE8,
     CHR 0x82, CHR 0x89, CHR 0xE6, CHR 0x9C, CHR 0x89, CHR 0xE8, CHR 0xBD, CHR 0xBB,
     CHR 0xE5, CHR 0xBA, CHR 0xA6, CHR 0xE7, CHR 0xB4, CHR 0xA7, CHR 0xE5, CHR 0xBC,
     CHR 0xA0, CHR 0xE6, CHR 0x84, CHR 0x9F, CHR 0xEF, CHR 0xBC, CHR 0x8C, CHR 0xE5,
     CHR 0xA4, CHR 0xB4, CHR 0xE9, CHR 0x83, CHR 0xA8, CHR 0xE5, CHR 0x90, CHR 0x91,
     CHR 0xE6, CHR 0x9F, CHR 0x90, CHR 0xE4, CHR 0xB8, CHR 0x80, CHR 0xE6, CHR 0x96,
     CHR 0xB9, CHR 0xE5, CHR 0x90, CHR 0x91, CHR 0xE8, CHR 0xBD, CHR 0xAC, CHR 0xE5,
     CHR 0x8A, CHR 0xA8, CHR 0xE6, CHR 0x97, CHR 0xB6, CHR 0xE6, CHR 0xB4, CHR 0xBB,
     CHR 0xE5, CHR 0x8A, CHR 0xA8, CHR 0xE8, CHR 0x8C, CHR 0x83, CHR 0xE5, CHR 0x9B,
     CHR 0xB4, CHR 0xE7, CHR 0x95, CHR 0xA5, CHR 0xE5, CHR 0x8F, CHR 0x97, CHR 0xE9,
     CHR 0x99, CHR 0x90, CHR 0xEF, CHR 0xBC, CHR 0x8C, CHR 0xE6, CHR 0x97, CHR 0xA0,
     CHR 0xE6, CHR 0x98, CHR 0x8E, CHR 0xE6, CHR 0x98, CHR 0xBE, CHR 0xE7, CHR 0x96,
     CHR 0xBC, CHR 0xE7, CHR 0x97, CHR 0x9B, CHR 0xE3, CHR 0x80, CHR 0x82]"

definition ANKLE_SPRAIN_description :: string where
  "ANKLE_SPRAIN_description = [
     CHR 0xE8, CHR 0xB8, CHR 0x9D, CHR 0xE5, CHR 0x85, CHR 0xB3, CHR 0xE8, CHR 0x8A,
     CHR 0x82, CHR 0xE6, CHR 0xB4, CHR 0xBB, CHR 0xE5, CHR 0x8A, CHR 0xA8, CHR 0xE6,
     CHR 0x97, CHR 0xB6, CHR 0xE5, CHR 0x8F, CHR 0xAF, CHR 0xE8, CHR 0x83, CHR 0xBD,
     CHR 0xE6, CHR 0x9C, CHR 0x89, CHR 0xE8, CHR 0xBD, CHR 0xBB, CHR 0xE5, CHR 0xBE,
     CHR 0xAE, CHR 0xE4, CHR 0xB8, CHR 0x8D, CHR 0xE9, CHR 0x80, CHR 0x82, CHR 0xE6,
     CHR 0x84, CHR 0x9F, CHR 0xEF, CHR 0xBC, CHR 0x8C, CHR 0xE5, CHR 0xB1, CHR 0x80,
     CHR 0xE9, CHR 0x83, CHR 0xA8, CHR 0xE6, CHR 0x9C, CHR 0xAA, CHR 0xE8, CHR 0xA7,
     CHR 0x81, CHR 0xE6, CHR 0x98, CHR 0x8E, CHR 0xE6, CHR 0x98, CHR 0xBE, CHR 0xE8,
     CHR 0x82, CHR 0xBF, CHR 0xE8, CHR 0x83, CHR 0x80, CHR 0xEF, CHR 0xBC, CHR 0x8C,
     CHR 0xE8, CHR 0xA1, CHR 0x8C, CHR 0xE8, CHR 0xB5, CHR 0xB0, CHR 0xE5, CHR 0x8A,
     CHR 0x9F, CHR 0xE8, CHR 0x83, CHR 0xBD, CHR 0xE5, CHR 0x9F, CHR 0xBA, CHR 0xE6,
     CHR 0x9C, CHR 0xAC, CHR 0xE6, CHR 0xAD, CHR 0xA3, CHR 0xE5, CHR 0xB8, CHR 0xB8,
     CHR 0xE3, CHR 0x80, CHR 0x82, CHR 0xE5, CHR 0xBB, CHR 0xBA, CHR 0xE8, CHR 0xAE,
     CHR 0xAE, CHR 0xE5, CHR 0x87, CHR 0x8F, CHR 0xE5, CHR 0xB0, CHR 0x91, CHR 0xE9,
     CHR 0x95, CHR 0xBF, CHR 0xE6, CHR 0x97, CHR 0xB6, CHR 0xE9, CHR 0x97, CHR 0xB4,
     CHR 0xE7, CHR 0xAB, CHR 0x99, CHR 0xE7, CHR 0xAB, CHR 0x8B, CHR 0xE3, CHR 0x80,
     CHR 0x82]"

definition NOSEBLEED_description :: string where
  "NOSEBLEED_description = [
     CHR 0xE9, CHR 0xBC, CHR 0xBB, CHR 0xE8, CHR 0x85, CHR 0x94, CHR 0xE9, CHR 0xBB,
     CHR 0x8F, CHR 0xE8, CHR 0x86, CHR 0x9C, CHR 0xE5, CHR 0xB0, CHR 0x8F, CHR 0xE8,
     CHR 0xA1, CHR 0x80, CHR 0xE7, CHR 0xAE, CHR 0xA1, CHR 0xE7, CHR 0xA0, CHR 0xB4,
     CHR 0xE8, CHR 0xA3, CHR 0x82, CHR 0xEF, CHR 0xBC, CHR 0x8C, CHR 0xE5, CHR 0x8D,
     CHR 0x95, CHR 0xE4, CHR 0xBE, CHR 0xA7, CHR 0xE9, CHR 0xBC, CHR 0xBB, CHR 0xE5,
     CHR 0xAD, CHR 0x94, CHR 0xE6, CHR 0x9C, CHR 0x89, CHR 0xE5, CHR 0xB0, CHR 0x91,
     CHR 0xE9, CHR 0x87, CHR 0x8F, CHR 0xE5, CHR 0x87, CHR 0xBA, CHR 0xE8, CHR 0xA1,
     CHR 0x80, CHR 0xEF, CHR 0xBC, CHR 0x8C, CHR 0xE9, CHR 0x80, CHR 0x9A, CHR 0xE5,
     CHR 0xB8, CHR 0xB8, CHR 0xE5, CHR 0x9C, CHR 0xA8, CHR 0x35, CHR 0xE5, CHR 0x88,
     CHR 0x86, CHR 0xE9, CHR 0x92, CHR 0x9F, CHR 0xE5, CHR 0x86, CHR 0x85, CHR 0xE5,
     CHR 0x8F, CHR 0xAF, CHR 0xE8, CHR 0x87, CHR 0xAA, CHR 0xE8, CHR 0xA1, CHR 0x8C,
     CHR 0xE5, CHR 0x81, CHR 0x9C, CHR 0xE6, CHR 0xAD, CHR 0xA2, CHR 0xE3, CHR 0x80,
     CHR 0x82, CHR 0xE5, CHR 0xBB, CHR 0xBA, CHR 0xE8, CHR 0xAE, CHR 0xAE, CHR 0xE4,
     CHR 0xBF, CHR 0x9D, CHR 0xE6, CHR 0x8C, CHR 0x81, CHR 0xE5, CHR 0xA4, CHR 0xB4,
     CHR 0xE9, CHR 0x83, CHR 0xA8, CHR 0xE5, CHR 0x89, CHR 0x8D, CHR 0xE5, CHR 0x80,
     CHR 0xBE, CHR 0xE5, CHR 0xA7, CHR 0xBF, CHR 0xE5, CHR 0x8A, CHR 0xBF, CHR 0xE3,
     CHR 0x80, CHR 0x82]"

definition MOUTH_ULCER_description :: string where
  "MOUTH_ULCER_description = [
     CHR 0xE5, CHR 0x8F, CHR 0xA3, CHR 0xE8, CHR 0x85, CHR 0x94, CHR 0xE9, CHR 0xBB,
     CHR 0x8F, CHR 0xE8, CHR 0x86, CHR 0x9C, CHR 0xE5, CHR 0x87, CHR 0xBA, CHR 0xE7,
     CHR 0x8E, CHR 0xB0, CHR 0xE4, CHR 0xB8, CHR 0x80, CHR 0xE5, CHR 0xA4, CHR 0x84,
     CHR 0xE5, CHR 0xB0, CHR 0x8F, CHR 0xE5, CHR 0x9E, CHR 0x8B, CHR 0xE6, CHR 0xBA,
     CHR 0x83, CHR 0xE7, CHR 0x96, CHR 0xA1, CHR 0xE9, CHR 0x9D, CHR 0xA2, CHR 0xEF,
     CHR 0xBC, CHR 0x8C, CHR 0xE7, CHR 0x9B, CHR 0xB4, CHR 0xE5, CHR 0xBE, CHR 0x84,
     CHR 0xE7, CHR 0xBA, CHR 0xA6, CHR 0x32, CHR 0x2D, CHR 0x33, CHR 0xE6, CHR 0xAF,
     CHR 0xAB, CHR 0xE7, CHR 0xB1, CHR 0xB3, CHR 0xEF, CHR 0xBC, CHR 0x8C, CHR 0xE6,
     CHR 0x8E, CHR 0xA5, CHR 0xE8, CHR 0xA7, CHR 0xA6, CHR 0xE9, CHR 0x85, CHR 0xB8,
     CHR 0xE6, CHR 0x80, CHR 0xA7, CHR 0xE6, CHR 0x88, CHR 0x96, CHR 0xE8, CHR 0xBE,
     CHR 0x83, CHR 0xE7, CHR 0xA1, CHR 0xAC, CHR 0xE9, CHR 0xA3, CHR 0x9F, CHR 0xE7,
     CHR 0x89, CHR 0xA9, CHR 0xE6, CHR 0x97, CHR 0xB6, CHR 0xE5, CHR 0x8F, CHR 0xAF,
     CHR 0xE8, CHR 0x83, CHR 0xBD, CHR 0xE6, CHR 0x9C, CHR 0x89, CHR 0xE8, CHR 0xBD,
     CHR 0xBB, CHR 0xE5, CHR 0xBE, CHR 0xAE, CHR 0xE5, CHR 0x88, CHR 0xBA, CHR 0xE7,
     CHR 0x97, CHR 0x9B, CHR 0xE6, CHR 0x84, CHR 0x9F, CHR 0xE3, CHR 0x80, CHR 0x82]"

definition fallback_description :: string where
  "fallback_description = [
     CHR 0xE8, CHR 0xBA, CHR 0xAB, CHR 0xE4, CHR 0xBD, CHR 0x93, CHR 0xE4, CHR 0xB8,
     CHR 0x8D, CHR 0xE9, CHR 0x80, CHR 0x82, CHR 0xEF, CHR 0xBC, CHR 0x8C, CHR 0xE9,
     CHR 0x9C, CHR 0x80, CHR 0xE8, CHR 0xA6, CHR 0x81, CHR 0xE4, CHR 0xBC, CHR 0x91,
     CHR 0xE6, CHR 0x81, CHR 0xAF, CHR 0xE3, CHR 0x80, CHR 0x82]"

text \<open>
  The four module-level tables are Python dicts, written here as association lists
  in the order of the source. \<open>dict.get(key, default)\<close> is \<open>dict_get\<close>.
\<close>

definition dict_get :: "('k \<times> 'v) list \<Rightarrow> 'k \<Rightarrow> 'v \<Rightarrow> 'v" where
  "dict_get d k dflt = (case map_of d k of None \<Rightarrow> dflt | Some v \<Rightarrow> v)"

definition ILLNESS_DESCRIPTIONS :: "(IllnessType \<times> string) list" where
  "ILLNESS_DESCRIPTIONS =
     [(SEVERE_COLD, SEVERE_COLD_description),
      (MILD_COLD, MILD_COLD_description),
      (TONSILLITIS, TONSILLITIS_description),
      (GASTROENTERITIS, GASTROENTERITIS_description),
      (SKIN_ALLERGY, SKIN_ALLERGY_description),
      (MINOR_SCRATCH, MINOR_SCRATCH_description),
      (HEADACHE, HEADACHE_description),
      (STIFF_NECK, STIFF_NECK_description),
      (ANKLE_SPRAIN, ANKLE_SPRAIN_description),
      (NOSEBLEED, NOSEBLEED_description),
      (MOUTH_ULCER, MOUTH_ULCER_description)]"

definition ILLNESS_DURATION_HOURS :: "(IllnessType \<times> real) list" where
  "ILLNESS_DURATION_HOURS =
     [(SEVERE_COLD, 48), (MILD_COLD, 48), (TONSILLITIS, 48), (GASTROENTERITIS, 24),
      (SKIN_ALLERGY, 48), (MINOR_SCRATCH, 24), (HEADACHE, 24), (STIFF_NECK, 24),
      (ANKLE_SPRAIN, 48), (NOSEBLEED, 0.5), (MOUTH_ULCER, 48)]"

definition ILLNESS_TRANSITIONS :: "(IllnessType \<times> IllnessType list) list" where
  "ILLNESS_TRANSITIONS =
     [(SEVERE_COLD, [MILD_COLD]), (MILD_COLD, []), (TONSILLITIS, []),
      (GASTROENTERITIS, []), (SKIN_ALLERGY, []), (MINOR_SCRATCH, []), (HEADACHE, []),
      (STIFF_NECK, []), (ANKLE_SPRAIN, []), (NOSEBLEED, []), (MOUTH_ULCER, [])]"

definition ILLNESS_SEVERITY :: "(IllnessType \<times> real) list" where
  "ILLNESS_SEVERITY =
     [(SEVERE_COLD, 0.8), (MILD_COLD, 0.3), (TONSILLITIS, 0.6), (GASTROENTERITIS, 0.5),
      (SKIN_ALLERGY, 0.4), (MINOR_SCRATCH, 0.2), (HEADACHE, 0.3), (STIFF_NECK, 0.3),
      (ANKLE_SPRAIN, 0.5), (NOSEBLEED, 0.3), (MOUTH_ULCER, 0.4)]"

text \<open>
  The lookups. Each is \<open>TABLE.get(illness_type, default)\<close> on a module-level dict; the
  dict is a mutable global of the module, so every lookup is first written over an
  arbitrary table (\<open>..._in\<close>) and then taken at the table of the source.
\<close>

definition get_illness_description_in :: "(IllnessType \<times> string) list \<Rightarrow> IllnessType \<Rightarrow> string" where
  "get_illness_description_in tbl k = dict_get tbl k fallback_description"

definition get_illness_duration_in :: "(IllnessType \<times> real) list \<Rightarrow> IllnessType \<Rightarrow> real" where
  "get_illness_duration_in tbl k = dict_get tbl k 24"

definition get_illness_severity_in :: "(IllnessType \<times> real) list \<Rightarrow> IllnessType \<Rightarrow> real" where
  "get_illness_severity_in tbl k = dict_get tbl k 0.5"

definition get_possible_transitions_in ::
  "(IllnessType \<times> IllnessType list) list \<Rightarrow> IllnessType \<Rightarrow> IllnessType list" where
  "get_possible_transitions_in tbl k = dict_get tbl k []"

definition get_illness_description :: "IllnessType \<Rightarrow> string" where
  "get_illness_description = get_illness_description_in ILLNESS_DESCRIPTIONS"

definition get_illness_duration :: "IllnessType \<Rightarrow> real" where
  "get_illness_duration = get_illness_duration_in ILLNESS_DURATION_HOURS"

definition get_illness_severity :: "IllnessType \<Rightarrow> real" where
  "get_illness_severity = get_illness_severity_in ILLNESS_SEVERITY"

definition get_possible_transitions :: "IllnessType \<Rightarrow> IllnessType list" where
  "get_possible_transitions = get_possible_transitions_in ILLNESS_TRANSITIONS"

section \<open>Storage, clock and random source\<close>

text \<open>
  The storage collaborator is injected (\<open>storage.get(key, default)\<close>,
  \<open>storage.set(key, value)\<close>) and is not part of the modelled files. The manager uses
  two keys, \<open>"illness_state"\<close> and \<open>"illness_history"\<close>; the store is a record with
  one slot per key (\<open>None\<close>: the key was never set) and two flags saying whether a call
  of \<open>get\<close> or of \<open>set\<close> raises. Stored values are typed: a field of a stored dict is
  either absent or holds a value of the type \<open>save_state\<close> writes there.
\<close>

record illness_data =
  d_type :: "string option"
  d_start_time :: "real option"
  d_severity :: "real option"
  d_stage :: "string option"

record state_data =
  sd_current_illness :: "illness_data option"
  sd_last_recovery_time :: "real option"
  sd_cool_down_end_time :: "real option"
  sd_last_update :: "real option"

record history_record =
  h_type :: string
  h_start_time :: real
  h_end_time :: real
  h_duration_hours :: real
  h_severity :: real

record storage =
  illness_state :: "state_data option"
  illness_history :: "history_record list option"
  get_raises :: bool
  set_raises :: bool

text \<open>The default \<open>{}\<close> of \<open>storage.get("illness_state", {})\<close>.\<close>

definition empty_state_data :: state_data where
  "empty_state_data =
     \<lparr>sd_current_illness = None, sd_last_recovery_time = None,
      sd_cool_down_end_time = None, sd_last_update = None\<rparr>"

definition storage_get_state :: "storage \<Rightarrow> py_error + state_data" where
  "storage_get_state st =
     (if get_raises st then Inl StorageError
      else Inr (case illness_state st of None \<Rightarrow> empty_state_data | Some d \<Rightarrow> d))"

definition storage_set_state :: "storage \<Rightarrow> state_data \<Rightarrow> py_error + storage" where
  "storage_set_state st d =
     (if set_raises st then Inl StorageError else Inr (st\<lparr>illness_state := Some d\<rparr>))"

definition storage_get_history :: "storage \<Rightarrow> py_error + history_record list" where
  "storage_get_history st =
     (if get_raises st then Inl StorageError
      else Inr (case illness_history st of None \<Rightarrow> [] | Some h \<Rightarrow> h))"

definition storage_set_history :: "storage \<Rightarrow> history_record list \<Rightarrow> py_error + storage" where
  "storage_set_history st h =
     (if set_raises st then Inl StorageError else Inr (st\<lparr>illness_history := Some h\<rparr>))"

text \<open>
  The manager object. \<open>clock_reads\<close> counts the calls of \<open>time.time()\<close> made so far:
  the wall clock is a sequence of readings \<open>clk :: nat \<Rightarrow> real\<close>, and the \<open>n\<close>-th
  call returns \<open>clk n\<close>. A call of an operation "at time \<open>now\<close>" is a run under the
  constant clock \<open>\<lambda>_. now\<close>.
\<close>

record manager =
  storage :: storage
  current_illness :: "IllnessInfo option"
  last_recovery_time :: real
  cool_down_end_time :: real
  clock_reads :: nat

definition time_time :: "(nat \<Rightarrow> real) \<Rightarrow> manager \<Rightarrow> real \<times> manager" where
  "time_time clk m = (clk (clock_reads m), m\<lparr>clock_reads := Suc (clock_reads m)\<rparr>)"

text \<open>\<open>IllnessInfo.get_duration_hours\<close>: one reading of the clock.\<close>

definition get_duration_hours :: "(nat \<Rightarrow> real) \<Rightarrow> IllnessInfo \<Rightarrow> manager \<Rightarrow> real \<times> manager" where
  "get_duration_hours clk ill m =
     (let (t, m1) = time_time clk m in ((t - start_time ill) / 3600, m1))"

text \<open>
  Random draws are arguments: \<open>u\<close> is the result of \<open>random.random()\<close> (in \<open>[0, 1)\<close>),
  \<open>pick\<close> the random integer that \<open>random.choice\<close> reduces below the length of its
  sequence. \<open>random.choice\<close> raises \<open>IndexError\<close> on an empty sequence.
\<close>

definition random_choice :: "'a list \<Rightarrow> nat \<Rightarrow> py_error + 'a" where
  "random_choice xs pick =
     (if xs = [] then Inl IndexError else Inr (xs ! (pick mod length xs)))"

text \<open>
  \<open>random.choices(population, weights=weights, k=1)[0]\<close> of the standard library:
  the cumulative weights, their total, and \<open>bisect\<close> of \<open>random() * total\<close> in them,
  bounded by the last index.
\<close>

fun accumulate :: "real \<Rightarrow> real list \<Rightarrow> real list" where
  "accumulate acc [] = []"
| "accumulate acc (w # ws) = (acc + w) # accumulate (acc + w) ws"

definition bisect :: "real list \<Rightarrow> real \<Rightarrow> nat \<Rightarrow> nat" where
  "bisect cum x hi = min hi (length (takeWhile (\<lambda>c. c \<le> x) cum))"

definition random_choices :: "'a list \<Rightarrow> real list \<Rightarrow> real \<Rightarrow> py_error + 'a" where
  "random_choices population weights u =
     (let cum_weights = accumulate 0 weights in
      if length cum_weights \<noteq> length population then Inl ValueError
      else if cum_weights = [] then Inl IndexError
      else let total = last cum_weights in
        if total \<le> 0 then Inl ValueError
        else Inr (population ! bisect cum_weights (u * total) (length population - 1)))"

section \<open>The manager (illness\_manager.py)\<close>

text \<open>
  \<open>save_state\<close>: the state dict (with the save time) is built, then stored; an
  exception of \<open>storage.set\<close> is caught and logged.
\<close>

definition illness_to_data :: "IllnessInfo \<Rightarrow> illness_data" where
  "illness_to_data ill =
     \<lparr>d_type = Some (illness_type_value (illness_type ill)),
      d_start_time = Some (start_time ill),
      d_severity = Some (severity ill),
      d_stage = Some (stage ill)\<rparr>"

definition save_state :: "(nat \<Rightarrow> real) \<Rightarrow> manager \<Rightarrow> manager" where
  "save_state clk m =
     (let (t, m1) = time_time clk m;
          state_data =
            \<lparr>sd_current_illness = map_option illness_to_data (current_illness m1),
             sd_last_recovery_time = Some (last_recovery_time m1),
             sd_cool_down_end_time = Some (cool_down_end_time m1),
             sd_last_update = Some t\<rparr>
      in case storage_set_state (storage m1) state_data of
           Inl e \<Rightarrow> m1
         | Inr st \<Rightarrow> m1\<lparr>storage := st\<rparr>)"

text \<open>
  \<open>load_state\<close>. A stored illness dict is truthy when it has at least one key.
  \<open>illness_data["type"]\<close> and \<open>illness_data["start_time"]\<close> raise \<open>KeyError\<close> on a
  missing key, \<open>IllnessType(...)\<close> raises \<open>ValueError\<close> on an unknown value; severity and
  stage are read with \<open>.get\<close> and a default. The log line at the end of the \<open>try\<close> block
  calls \<open>get_health_status\<close>, which reads the clock once, and once more through
  \<open>get_duration_hours\<close> when an illness is active; only these reads are modelled.
\<close>

definition dict_truthy :: "illness_data \<Rightarrow> bool" where
  "dict_truthy d =
     (\<not> (d_type d = None \<and> d_start_time d = None \<and> d_severity d = None \<and> d_stage d = None))"

definition illness_of_data :: "illness_data \<Rightarrow> py_error + IllnessInfo" where
  "illness_of_data d =
     (case d_type d of
        None \<Rightarrow> Inl KeyError
      | Some v \<Rightarrow>
          (case IllnessType_of_value v of
             Inl e \<Rightarrow> Inl e
           | Inr k \<Rightarrow>
               (case d_start_time d of
                  None \<Rightarrow> Inl KeyError
                | Some t \<Rightarrow>
                    Inr \<lparr>illness_type = k, start_time = t,
                         severity = (case d_severity d of None \<Rightarrow> 0.5 | Some s \<Rightarrow> s),
                         stage = (case d_stage d of None \<Rightarrow> ''initial'' | Some s \<Rightarrow> s)\<rparr>)))"

definition log_health_status :: "(nat \<Rightarrow> real) \<Rightarrow> manager \<Rightarrow> manager" where
  "log_health_status clk m =
     (let (current_time, m1) = time_time clk m in
      case current_illness m1 of
        None \<Rightarrow> m1
      | Some ill \<Rightarrow> snd (get_duration_hours clk ill m1))"

definition load_state_try :: "(nat \<Rightarrow> real) \<Rightarrow> manager \<Rightarrow> py_error + manager" where
  "load_state_try clk m =
     (case storage_get_state (storage m) of
        Inl e \<Rightarrow> Inl e
      | Inr state_data \<Rightarrow>
          (case (case sd_current_illness state_data of
                   None \<Rightarrow> Inr m
                 | Some illness_data \<Rightarrow>
                     if dict_truthy illness_data
                     then (case illness_of_data illness_data of
                             Inl e \<Rightarrow> Inl e
                           | Inr ill \<Rightarrow> Inr (m\<lparr>current_illness := Some ill\<rparr>))
                     else Inr m) of
             Inl e \<Rightarrow> Inl e
           | Inr m1 \<Rightarrow>
               Inr (log_health_status clk
                     (m1\<lparr>last_recovery_time :=
                            (case sd_last_recovery_time state_data of None \<Rightarrow> 0 | Some v \<Rightarrow> v),
                          cool_down_end_time :=
                            (case sd_cool_down_end_time state_data of None \<Rightarrow> 0 | Some v \<Rightarrow> v)\<rparr>))))"

definition load_state :: "(nat \<Rightarrow> real) \<Rightarrow> manager \<Rightarrow> manager" where
  "load_state clk m =
     (case load_state_try clk m of
        Inl e \<Rightarrow> m\<lparr>current_illness := None, last_recovery_time := 0, cool_down_end_time := 0\<rparr>
      | Inr m1 \<Rightarrow> m1)"

text \<open>\<open>IllnessManager.__init__\<close>; \<open>n\<close> is the number of clock readings taken before.\<close>

definition new_manager :: "(nat \<Rightarrow> real) \<Rightarrow> nat \<Rightarrow> storage \<Rightarrow> manager" where
  "new_manager clk n st =
     load_state clk
       \<lparr>storage = st, current_illness = None, last_recovery_time = 0,
        cool_down_end_time = 0, clock_reads = n\<rparr>"

text \<open>
  Python's slice \<open>xs[i:]\<close>: a negative start counts from the end and is clamped at 0, a
  start beyond the end gives the empty list.
\<close>

definition py_slice_from :: "'a list \<Rightarrow> int \<Rightarrow> 'a list" where
  "py_slice_from xs i =
     (let n = int (length xs);
          start = (if i < 0 then max (n + i) 0 else min i n)
      in drop (nat start) xs)"

text \<open>
  \<open>_add_to_history\<close>: the whole body is inside \<open>try\<close>, so an exception of
  \<open>storage.get\<close> or \<open>storage.set\<close> leaves the stored history as it was (the list
  that \<open>storage.get\<close> returns is taken to be a copy: appending to it does not change
  the store before \<open>storage.set\<close>). \<open>history_record_of\<close> is the dict literal built
  there.
\<close>

definition history_record_of :: "IllnessInfo \<Rightarrow> real \<Rightarrow> history_record" where
  "history_record_of illness end_time =
     \<lparr>h_type = illness_type_value (illness_type illness),
      h_start_time = start_time illness,
      h_end_time = end_time,
      h_duration_hours = (end_time - start_time illness) / 3600,
      h_severity = severity illness\<rparr>"

definition add_to_history :: "IllnessInfo \<Rightarrow> real \<Rightarrow> manager \<Rightarrow> manager" where
  "add_to_history illness end_time m =
     (case storage_get_history (storage m) of
        Inl e \<Rightarrow> m
      | Inr history \<Rightarrow>
          (let history_record = history_record_of illness end_time;
               history1 = history @ [history_record];
               history2 = (if length history1 > 20 then py_slice_from history1 (- 20) else history1)
           in case storage_set_history (storage m) history2 of
                Inl e \<Rightarrow> m
              | Inr st \<Rightarrow> m\<lparr>storage := st\<rparr>))"

definition recover_from_illness :: "(nat \<Rightarrow> real) \<Rightarrow> manager \<Rightarrow> manager" where
  "recover_from_illness clk m =
     (case current_illness m of
        None \<Rightarrow> m
      | Some ill \<Rightarrow>
          (let (duration, m1) = get_duration_hours clk ill m;
               (end_time, m2) = time_time clk m1;
               m3 = add_to_history ill end_time m2;
               (t, m4) = time_time clk m3
           in save_state clk (m4\<lparr>current_illness := None, last_recovery_time := t\<rparr>)))"

definition transition_to_illness :: "(nat \<Rightarrow> real) \<Rightarrow> IllnessType \<Rightarrow> manager \<Rightarrow> manager" where
  "transition_to_illness clk new_illness_type m =
     (let (t, m1) = time_time clk m
      in save_state clk
           (m1\<lparr>current_illness :=
                 Some \<lparr>illness_type = new_illness_type, start_time = t,
                       severity = get_illness_severity new_illness_type,
                       stage = ''initial''\<rparr>\<rparr>))"

definition update_illness_stage :: "(nat \<Rightarrow> real) \<Rightarrow> real \<Rightarrow> real \<Rightarrow> manager \<Rightarrow> manager" where
  "update_illness_stage clk duration_hours expected_duration m =
     (case current_illness m of
        None \<Rightarrow> m
      | Some ill \<Rightarrow>
          (let progress = (if expected_duration > 0 then duration_hours / expected_duration else 0);
               new_stage =
                 (if progress < 0.3 then ''initial''
                  else if progress < 0.7 then ''progressing''
                  else ''recovering'')
           in if stage ill \<noteq> new_stage
              then save_state clk (m\<lparr>current_illness := Some (ill\<lparr>stage := new_stage\<rparr>)\<rparr>)
              else m))"

text \<open>
  \<open>update_illness_state\<close>. \<open>duration_hours\<close> and \<open>expected_duration\<close> are computed
  once, from the illness active on entry, and passed to \<open>_update_illness_stage\<close> after
  the transition or recovery. The draw \<open>u\<close> is only taken when the list of transitions
  is not empty; \<open>random.choice\<close> is then called on a non-empty list.
\<close>

definition update_illness_state :: "(nat \<Rightarrow> real) \<Rightarrow> real \<Rightarrow> nat \<Rightarrow> manager \<Rightarrow> manager" where
  "update_illness_state clk u pick m =
     (case current_illness m of
        None \<Rightarrow> m
      | Some ill \<Rightarrow>
          (let (current_time, m1) = time_time clk m;
               (duration_hours, m2) = get_duration_hours clk ill m1;
               ill_type = illness_type ill;
               expected_duration = get_illness_duration ill_type;
               m3 =
                 (if duration_hours \<ge> expected_duration then
                    (let possible_transitions = get_possible_transitions ill_type in
                     if possible_transitions \<noteq> [] then
                       (if u < 0.7 then
                          (case random_choice possible_transitions pick of
                             Inl e \<Rightarrow> m2
                           | Inr new_illness_type \<Rightarrow> transition_to_illness clk new_illness_type m2)
                        else recover_from_illness clk m2)
                     else recover_from_illness clk m2)
                  else m2)
           in update_illness_stage clk duration_hours expected_duration m3))"

definition should_get_sick :: "(nat \<Rightarrow> real) \<Rightarrow> real \<Rightarrow> real \<Rightarrow> manager \<Rightarrow> bool \<times> manager" where
  "should_get_sick clk daily_probability u m =
     (let (current_time, m1) = time_time clk m in
      if current_time < cool_down_end_time m1 then (False, m1)
      else if current_illness m1 \<noteq> None then (False, m1)
      else if u < daily_probability then (True, m1)
      else (False, m1))"

text \<open>The weight table of \<open>_get_weighted_random_illness\<close>, in the order of the source.\<close>

definition weights :: "(IllnessType \<times> real) list" where
  "weights =
     [(MILD_COLD, 30), (HEADACHE, 20), (STIFF_NECK, 15), (MINOR_SCRATCH, 15),
      (NOSEBLEED, 10), (MOUTH_ULCER, 15), (GASTROENTERITIS, 10), (SKIN_ALLERGY, 10),
      (TONSILLITIS, 8), (ANKLE_SPRAIN, 5), (SEVERE_COLD, 3)]"

definition get_weighted_random_illness :: "real \<Rightarrow> py_error + IllnessType" where
  "get_weighted_random_illness u = random_choices (map fst weights) (map snd weights) u"

text \<open>
  \<open>trigger_random_illness\<close>: the \<open>try\<close> block first draws the type; an exception there
  reaches the \<open>except\<close> branch before anything is assigned. \<open>trigger_random_illness_on\<close>
  is the method given the outcome of the draw.
\<close>

definition trigger_random_illness_on ::
  "py_error + IllnessType \<Rightarrow> (nat \<Rightarrow> real) \<Rightarrow> manager \<Rightarrow> IllnessInfo option \<times> manager" where
  "trigger_random_illness_on draw clk m =
     (case draw of
        Inl e \<Rightarrow> (None, m)
      | Inr ill_type \<Rightarrow>
          (let (t, m1) = time_time clk m;
               m2 = save_state clk
                      (m1\<lparr>current_illness :=
                            Some \<lparr>illness_type = ill_type, start_time = t,
                                  severity = get_illness_severity ill_type,
                                  stage = ''initial''\<rparr>\<rparr>)
           in (current_illness m2, m2)))"

definition trigger_random_illness ::
  "(nat \<Rightarrow> real) \<Rightarrow> real \<Rightarrow> manager \<Rightarrow> IllnessInfo option \<times> manager" where
  "trigger_random_illness clk u m = trigger_random_illness_on (get_weighted_random_illness u) clk m"

definition force_recovery :: "(nat \<Rightarrow> real) \<Rightarrow> manager \<Rightarrow> manager" where
  "force_recovery clk m = (if current_illness m \<noteq> None then recover_from_illness clk m else m)"

definition set_cool_down :: "(nat \<Rightarrow> real) \<Rightarrow> real \<Rightarrow> manager \<Rightarrow> manager" where
  "set_cool_down clk cool_down_days m =
     (let (t, m1) = time_time clk m
      in save_state clk (m1\<lparr>cool_down_end_time := t + cool_down_days * 24 * 3600\<rparr>))"

definition get_illness_history :: "int \<Rightarrow> manager \<Rightarrow> history_record list" where
  "get_illness_history limit m =
     (case storage_get_history (storage m) of
        Inl e \<Rightarrow> []
      | Inr history \<Rightarrow> if history \<noteq> [] then py_slice_from history (- limit) else [])"

section \<open>Notions used to state the properties\<close>

text \<open>The history list held by the store; an unset key reads as the empty list.\<close>

definition history_of :: "manager \<Rightarrow> history_record list" where
  "history_of m = (case illness_history (storage m) of None \<Rightarrow> [] | Some h \<Rightarrow> h)"

text \<open>The last \<open>n\<close> elements of a list, in their order (all of it when it is shorter).\<close>

definition most_recent :: "nat \<Rightarrow> 'a list \<Rightarrow> 'a list" where
  "most_recent n xs = drop (length xs - n) xs"

text \<open>
  A run of episodes, as the scheduler and the commands produce them: each episode is a
  call of \<open>trigger_random_illness\<close> (with its draw \<open>u\<close>) followed by a call of
  \<open>recover_from_illness\<close>.
\<close>

fun run_episodes :: "(nat \<Rightarrow> real) \<Rightarrow> real list \<Rightarrow> manager \<Rightarrow> manager" where
  "run_episodes clk [] m = m"
| "run_episodes clk (u # us) m =
     run_episodes clk us (recover_from_illness clk (snd (trigger_random_illness clk u m)))"

text \<open>
  The records such a run is expected to log, from clock reading \<open>n\<close> on: an episode
  takes six readings, the first is the start time and the fourth the end time.
\<close>

fun episode_records :: "(nat \<Rightarrow> real) \<Rightarrow> nat \<Rightarrow> real list \<Rightarrow> history_record list" where
  "episode_records clk n [] = []"
| "episode_records clk n (u # us) =
     (case get_weighted_random_illness u of
        Inl e \<Rightarrow> episode_records clk n us
      | Inr k \<Rightarrow>
          history_record_of
            \<lparr>illness_type = k, start_time = clk n, severity = get_illness_severity k,
             stage = ''initial''\<rparr> (clk (n + 3))
          # episode_records clk (n + 6) us)"

text \<open>An empty store whose calls succeed, and a store whose reads raise.\<close>

definition working_store :: storage where
  "working_store =
     \<lparr>illness_state = None, illness_history = None, get_raises = False, set_raises = False\<rparr>"

definition healthy_manager :: manager where
  "healthy_manager =
     \<lparr>storage = working_store, current_illness = None, last_recovery_time = 0,
      cool_down_end_time = 0, clock_reads = 0\<rparr>"

text \<open>A severe cold that began at time 0, in its last stage.\<close>

definition severe_cold_manager :: manager where
  "severe_cold_manager =
     healthy_manager
       \<lparr>current_illness :=
          Some \<lparr>illness_type = SEVERE_COLD, start_time = 0, severity = 0.8,
                stage = ''recovering''\<rparr>\<rparr>"

section \<open>Properties of the catalog\<close>

lemmas value_defs =
  SEVERE_COLD_value_def MILD_COLD_value_def TONSILLITIS_value_def GASTROENTERITIS_value_def
  SKIN_ALLERGY_value_def MINOR_SCRATCH_value_def HEADACHE_value_def STIFF_NECK_value_def
  ANKLE_SPRAIN_value_def NOSEBLEED_value_def MOUTH_ULCER_value_def

lemmas description_defs =
  SEVERE_COLD_description_def MILD_COLD_description_def TONSILLITIS_description_def
  GASTROENTERITIS_description_def SKIN_ALLERGY_description_def MINOR_SCRATCH_description_def
  HEADACHE_description_def STIFF_NECK_description_def ANKLE_SPRAIN_description_def
  NOSEBLEED_description_def MOUTH_ULCER_description_def

text \<open>The eleven values are pairwise distinct, so the enum is recovered from its value.\<close>

lemma IllnessType_of_value_inverse: "IllnessType_of_value (illness_type_value k) = Inr k"
  by (cases k; simp add: IllnessType_of_value_def get_all_illness_types_def value_defs)

lemma duration_positive: "0 < get_illness_duration k"
  by (cases k; simp add: get_illness_duration_def get_illness_duration_in_def dict_get_def
        ILLNESS_DURATION_HOURS_def)

lemma description_nonempty: "get_illness_description k \<noteq> []"
  by (cases k; simp add: get_illness_description_def get_illness_description_in_def dict_get_def
        ILLNESS_DESCRIPTIONS_def description_defs)

text \<open>
  Claim C9. Every one of the eleven kinds has a positive nominal duration and a
  non-empty description. The four lookups are total functions (a \<open>dict.get\<close> with a
  default raises nothing), and on a table that lacks the kind they return the fallback:
  the generic description (a non-empty string), 24 hours, severity 0.5, no successor.
\<close>

theorem catalog_lookups_total:
  "(\<forall>k. 0 < get_illness_duration k \<and> get_illness_description k \<noteq> [])
   \<and> (\<forall>tbl k. map_of tbl k = None \<longrightarrow> get_illness_description_in tbl k = fallback_description)
   \<and> fallback_description \<noteq> []
   \<and> (\<forall>tbl k. map_of tbl k = None \<longrightarrow> get_illness_duration_in tbl k = 24)
   \<and> (\<forall>tbl k. map_of tbl k = None \<longrightarrow> get_illness_severity_in tbl k = 0.5)
   \<and> (\<forall>tbl k. map_of tbl k = None \<longrightarrow> get_possible_transitions_in tbl k = [])"
  by (simp add: duration_positive description_nonempty get_illness_description_in_def
        get_illness_duration_in_def get_illness_severity_in_def get_possible_transitions_in_def
        dict_get_def fallback_description_def)

theorem catalog_lookups_total_witness:
  "map_of [(MILD_COLD, MILD_COLD_description)] NOSEBLEED = None
   \<and> get_illness_description_in [(MILD_COLD, MILD_COLD_description)] NOSEBLEED
       = fallback_description
   \<and> map_of [(MILD_COLD, 48::real)] NOSEBLEED = None
   \<and> get_illness_duration_in [(MILD_COLD, 48)] NOSEBLEED = 24
   \<and> get_illness_severity_in [(MILD_COLD, 0.3)] NOSEBLEED = 0.5
   \<and> map_of [(SEVERE_COLD, [MILD_COLD])] NOSEBLEED = None
   \<and> get_possible_transitions_in [(SEVERE_COLD, [MILD_COLD])] NOSEBLEED = []
   \<and> 0 < get_illness_duration NOSEBLEED \<and> get_illness_description NOSEBLEED \<noteq> []"
  using catalog_lookups_total by simp

section \<open>Triggering\<close>

text \<open>
  Claim C3. \<open>should_get_sick\<close> reads the clock once; with \<open>now\<close> that reading, it
  returns false when \<open>now\<close> is strictly before the cooldown deadline, whatever the
  probability, and false when an illness is active; otherwise it returns the outcome
  \<open>u < daily_probability\<close> of its single draw \<open>u\<close> (true with probability
  \<open>daily_probability\<close> for \<open>u\<close> uniform on \<open>[0, 1)\<close>). \<open>set_cool_down\<close> sets the
  deadline to its own reading of the clock plus \<open>days * 24 * 3600\<close>.
\<close>

theorem should_get_sick_gates:
  "(clk (clock_reads m) < cool_down_end_time m \<longrightarrow> fst (should_get_sick clk p u m) = False)
   \<and> (current_illness m \<noteq> None \<longrightarrow> fst (should_get_sick clk p u m) = False)
   \<and> (\<not> clk (clock_reads m) < cool_down_end_time m \<and> current_illness m = None
        \<longrightarrow> fst (should_get_sick clk p u m) = (u < p))
   \<and> cool_down_end_time (set_cool_down clk days m) = clk (clock_reads m) + days * 24 * 3600"
  by (simp add: should_get_sick_def set_cool_down_def save_state_def time_time_def
        storage_set_state_def Let_def split: sum.splits)

theorem should_get_sick_gates_witness:
  "cool_down_end_time (set_cool_down (\<lambda>_. 1000) 3 healthy_manager) = 260200
   \<and> fst (should_get_sick (\<lambda>_. 260199) 1 0 (set_cool_down (\<lambda>_. 1000) 3 healthy_manager)) = False
   \<and> fst (should_get_sick (\<lambda>_. 260200) 1 0 (set_cool_down (\<lambda>_. 1000) 3 healthy_manager)) = True
   \<and> fst (should_get_sick (\<lambda>_. 260200) 1 0 severe_cold_manager) = False"
proof -
  let ?m = "set_cool_down (\<lambda>_. 1000) 3 healthy_manager"
  have c: "cool_down_end_time ?m = 260200"
    using should_get_sick_gates [of "\<lambda>_. 1000" healthy_manager _ _ 3] by simp
  have i: "current_illness ?m = None"
    by (simp add: set_cool_down_def save_state_def time_time_def storage_set_state_def
          healthy_manager_def working_store_def)
  have s: "current_illness severe_cold_manager \<noteq> None"
    by (simp add: severe_cold_manager_def)
  show ?thesis
    using c i s should_get_sick_gates [of "\<lambda>_. 260199" ?m 1 0]
      should_get_sick_gates [of "\<lambda>_. 260200" ?m 1 0]
      should_get_sick_gates [of "\<lambda>_. 260200" severe_cold_manager 1 0]
    by simp
qed

text \<open>The weighted draw over the table of the source succeeds for every \<open>u\<close>.\<close>

lemma get_weighted_random_illness_total: "\<exists>k. get_weighted_random_illness u = Inr k"
  by (simp add: get_weighted_random_illness_def random_choices_def weights_def Let_def)

text \<open>
  Claim C4. Whatever the state (an illness may already be active),
  \<open>trigger_random_illness\<close> draws a kind \<open>k\<close>, returns the new record (start time the
  clock reading of the call, severity the catalog severity of \<open>k\<close>, stage
  \<open>initial\<close>) and makes it the active illness; recovery time and cooldown are kept.
  When the draw raises, the method returns \<open>None\<close> and the manager is unchanged.
\<close>

theorem trigger_random_illness_replaces:
  "(\<exists>k. get_weighted_random_illness u = Inr k
        \<and> fst (trigger_random_illness clk u m)
            = Some \<lparr>illness_type = k, start_time = clk (clock_reads m),
                    severity = get_illness_severity k, stage = ''initial''\<rparr>
        \<and> current_illness (snd (trigger_random_illness clk u m))
            = fst (trigger_random_illness clk u m)
        \<and> last_recovery_time (snd (trigger_random_illness clk u m)) = last_recovery_time m
        \<and> cool_down_end_time (snd (trigger_random_illness clk u m)) = cool_down_end_time m)
   \<and> trigger_random_illness_on (Inl e) clk m = (None, m)"
proof -
  obtain k where k: "get_weighted_random_illness u = Inr k"
    using get_weighted_random_illness_total by blast
  show ?thesis
    by (simp add: k trigger_random_illness_def trigger_random_illness_on_def save_state_def
          time_time_def storage_set_state_def Let_def split: sum.splits)
qed

section \<open>Recovery and the history log\<close>

text \<open>A negative slice start \<open>-n\<close> with \<open>n > 0\<close> keeps the last \<open>n\<close> elements.\<close>

lemma py_slice_from_last: "0 < n \<Longrightarrow> py_slice_from xs (- int n) = most_recent n xs"
  by (simp add: py_slice_from_def most_recent_def Let_def max_def nat_diff_distrib')

lemma keep_20: "(if length xs > 20 then py_slice_from xs (- 20) else xs) = most_recent 20 xs"
  using py_slice_from_last [of 20 xs] by (simp add: most_recent_def)

lemma add_to_history_working:
  assumes "\<not> get_raises (storage m)" "\<not> set_raises (storage m)"
  shows "add_to_history ill t m =
           m\<lparr>storage := (storage m)\<lparr>illness_history :=
                Some (most_recent 20 (history_of m @ [history_record_of ill t]))\<rparr>\<rparr>"
  using assms
  by (simp add: add_to_history_def storage_get_history_def storage_set_history_def
        history_of_def keep_20 Let_def)

lemma add_to_history_frame:
  "current_illness (add_to_history ill t m) = current_illness m"
  "last_recovery_time (add_to_history ill t m) = last_recovery_time m"
  "cool_down_end_time (add_to_history ill t m) = cool_down_end_time m"
  "clock_reads (add_to_history ill t m) = clock_reads m"
  "get_raises (storage (add_to_history ill t m)) = get_raises (storage m)"
  "set_raises (storage (add_to_history ill t m)) = set_raises (storage m)"
  by (simp_all add: add_to_history_def storage_get_history_def storage_set_history_def Let_def
        split: sum.splits)

lemma save_state_frame:
  "current_illness (save_state clk m) = current_illness m"
  "last_recovery_time (save_state clk m) = last_recovery_time m"
  "cool_down_end_time (save_state clk m) = cool_down_end_time m"
  "clock_reads (save_state clk m) = Suc (clock_reads m)"
  "get_raises (storage (save_state clk m)) = get_raises (storage m)"
  "set_raises (storage (save_state clk m)) = set_raises (storage m)"
  "history_of (save_state clk m) = history_of m"
  by (simp_all add: save_state_def time_time_def storage_set_state_def history_of_def Let_def
        split: sum.splits)

lemma recover_from_illness_unfold:
  "current_illness m = Some ill \<Longrightarrow>
   recover_from_illness clk m =
     save_state clk
       ((add_to_history ill (clk (Suc (clock_reads m))) (m\<lparr>clock_reads := Suc (Suc (clock_reads m))\<rparr>))
          \<lparr>clock_reads := Suc (Suc (Suc (clock_reads m))), current_illness := None,
            last_recovery_time := clk (Suc (Suc (clock_reads m)))\<rparr>)"
  by (simp add: recover_from_illness_def get_duration_hours_def time_time_def Let_def
        add_to_history_frame)

text \<open>
  Claim C6. With an illness active and every clock reading of the call equal to \<open>now\<close>,
  \<open>recover_from_illness\<close> clears the active illness and sets \<open>last_recovery_time\<close> to
  \<open>now\<close>; when the store's calls succeed, the history becomes the old one with the
  record (kind, start time, end time \<open>now\<close>, duration \<open>(now - start_time) / 3600\<close>
  hours, severity) appended, cut to its last 20 entries. \<open>force_recovery\<close> is the same
  call when an illness is active and changes nothing when none is.
\<close>

theorem recover_from_illness_resolves:
  "(current_illness m = Some ill \<longrightarrow>
      current_illness (recover_from_illness (\<lambda>_. now) m) = None
      \<and> last_recovery_time (recover_from_illness (\<lambda>_. now) m) = now
      \<and> (\<not> get_raises (storage m) \<and> \<not> set_raises (storage m) \<longrightarrow>
           history_of (recover_from_illness (\<lambda>_. now) m)
             = most_recent 20
                 (history_of m @
                   [\<lparr>h_type = illness_type_value (illness_type ill),
                     h_start_time = start_time ill,
                     h_end_time = now,
                     h_duration_hours = (now - start_time ill) / 3600,
                     h_severity = severity ill\<rparr>]))
      \<and> force_recovery (\<lambda>_. now) m = recover_from_illness (\<lambda>_. now) m)
   \<and> (current_illness m = None \<longrightarrow> force_recovery clk m = m)"
proof -
  have "history_of (recover_from_illness (\<lambda>_. now) m)
          = most_recent 20 (history_of m @ [history_record_of ill now])"
    if "current_illness m = Some ill" "\<not> get_raises (storage m)" "\<not> set_raises (storage m)"
    using that
    by (simp add: recover_from_illness_unfold save_state_frame add_to_history_working)
       (simp add: history_of_def)
  then show ?thesis
    by (auto simp add: recover_from_illness_unfold save_state_frame add_to_history_frame
          force_recovery_def history_record_of_def)
qed


theorem recover_from_illness_resolves_witness:
  "current_illness severe_cold_manager
     = Some \<lparr>illness_type = SEVERE_COLD, start_time = 0, severity = 0.8, stage = ''recovering''\<rparr>
   \<and> \<not> get_raises (storage severe_cold_manager) \<and> \<not> set_raises (storage severe_cold_manager)
   \<and> current_illness (recover_from_illness (\<lambda>_. 176400) severe_cold_manager) = None
   \<and> last_recovery_time (recover_from_illness (\<lambda>_. 176400) severe_cold_manager) = 176400
   \<and> history_of (recover_from_illness (\<lambda>_. 176400) severe_cold_manager)
       = [\<lparr>h_type = SEVERE_COLD_value, h_start_time = 0, h_end_time = 176400,
           h_duration_hours = 49, h_severity = 0.8\<rparr>]
   \<and> force_recovery (\<lambda>_. 176400) severe_cold_manager
       = recover_from_illness (\<lambda>_. 176400) severe_cold_manager
   \<and> current_illness healthy_manager = None
   \<and> force_recovery (\<lambda>_. 176400) healthy_manager = healthy_manager"
proof -
  have a: "current_illness severe_cold_manager
     = Some \<lparr>illness_type = SEVERE_COLD, start_time = 0, severity = 0.8, stage = ''recovering''\<rparr>"
    and b: "\<not> get_raises (storage severe_cold_manager)" "\<not> set_raises (storage severe_cold_manager)"
    and c: "history_of severe_cold_manager = []"
    and d: "current_illness healthy_manager = None"
    by (simp_all add: severe_cold_manager_def healthy_manager_def working_store_def history_of_def)
  show ?thesis
    using a b c d
      recover_from_illness_resolves [of severe_cold_manager
        "\<lparr>illness_type = SEVERE_COLD, start_time = 0, severity = 0.8, stage = ''recovering''\<rparr>"
        176400]
      recover_from_illness_resolves [of healthy_manager _ _ "\<lambda>_. 176400"]
    by (simp add: most_recent_def)
qed

lemma most_recent_append: "most_recent n (most_recent n xs @ ys) = most_recent n (xs @ ys)"
  by (cases "n \<le> length xs") (simp_all add: most_recent_def add.commute)

lemma length_most_recent: "length (most_recent n xs) \<le> n"
  by (simp add: most_recent_def)

lemma length_episode_records: "length (episode_records clk n us) = length us"
proof (induction us arbitrary: n)
  case Nil
  show ?case by simp
next
  case (Cons u us)
  obtain k where "get_weighted_random_illness u = Inr k"
    using get_weighted_random_illness_total by blast
  with Cons show ?case by simp
qed

lemma trigger_random_illness_unfold:
  "get_weighted_random_illness u = Inr k \<Longrightarrow>
   snd (trigger_random_illness clk u m) =
     save_state clk
       (m\<lparr>clock_reads := Suc (clock_reads m),
          current_illness :=
            Some \<lparr>illness_type = k, start_time = clk (clock_reads m),
                  severity = get_illness_severity k, stage = ''initial''\<rparr>\<rparr>)"
  by (simp add: trigger_random_illness_def trigger_random_illness_on_def time_time_def Let_def)

lemma one_episode:
  fixes clk :: "nat \<Rightarrow> real" and u :: real and m :: manager
  defines "m' \<equiv> recover_from_illness clk (snd (trigger_random_illness clk u m))"
  assumes "\<not> get_raises (storage m)" "\<not> set_raises (storage m)"
  shows "history_of m' = most_recent 20 (history_of m @ episode_records clk (clock_reads m) [u])"
    and "clock_reads m' = clock_reads m + 6"
    and "\<not> get_raises (storage m')" and "\<not> set_raises (storage m')"
proof -
  obtain k where k: "get_weighted_random_illness u = Inr k"
    using get_weighted_random_illness_total by blast
  let ?ill = "\<lparr>illness_type = k, start_time = clk (clock_reads m),
                severity = get_illness_severity k, stage = ''initial''\<rparr>"
  let ?m1 = "snd (trigger_random_illness clk u m)"
  have m1: "current_illness ?m1 = Some ?ill" "clock_reads ?m1 = clock_reads m + 2"
    "\<not> get_raises (storage ?m1)" "\<not> set_raises (storage ?m1)" "history_of ?m1 = history_of m"
    using assms(2,3) by (simp_all add: trigger_random_illness_unfold [OF k] save_state_frame)
       (simp add: history_of_def)
  have w: "add_to_history ?ill t (?m1\<lparr>clock_reads := c\<rparr>) =
             ?m1\<lparr>clock_reads := c, storage := (storage ?m1)\<lparr>illness_history :=
                Some (most_recent 20 (history_of m @ [history_record_of ?ill t]))\<rparr>\<rparr>" for t c
    using m1(3,4,5) add_to_history_working [of "?m1\<lparr>clock_reads := c\<rparr>" ?ill t]
    by (simp add: history_of_def)
  show "history_of m' = most_recent 20 (history_of m @ episode_records clk (clock_reads m) [u])"
    unfolding m'_def
    by (simp add: recover_from_illness_unfold [OF m1(1)] save_state_frame w m1(2) k)
       (simp add: history_of_def numeral_3_eq_3)
  show "clock_reads m' = clock_reads m + 6"
    unfolding m'_def
    by (simp add: recover_from_illness_unfold [OF m1(1)] save_state_frame m1(2)
          add_to_history_frame)
  show "\<not> get_raises (storage m')" "\<not> set_raises (storage m')"
    unfolding m'_def
    using m1(3,4)
    by (simp_all add: recover_from_illness_unfold [OF m1(1)] save_state_frame add_to_history_frame)
qed

lemma episode_records_Cons:
  "episode_records clk n (u # us) = episode_records clk n [u] @ episode_records clk (n + 6) us"
proof -
  obtain k where "get_weighted_random_illness u = Inr k"
    using get_weighted_random_illness_total by blast
  then show ?thesis by simp
qed

lemma run_episodes_history:
  "\<not> get_raises (storage m) \<Longrightarrow> \<not> set_raises (storage m) \<Longrightarrow> length (history_of m) \<le> 20 \<Longrightarrow>
   history_of (run_episodes clk us m)
     = most_recent 20 (history_of m @ episode_records clk (clock_reads m) us)"
proof (induction us arbitrary: m)
  case Nil
  then show ?case by (simp add: most_recent_def)
next
  case (Cons u us)
  let ?m' = "recover_from_illness clk (snd (trigger_random_illness clk u m))"
  note ep = one_episode [OF Cons.prems(1,2), of clk u]
  have "length (history_of ?m') \<le> 20"
    by (simp add: ep(1) length_most_recent)
  then have "history_of (run_episodes clk us ?m')
     = most_recent 20 (history_of ?m' @ episode_records clk (clock_reads ?m') us)"
    using Cons.IH [of ?m'] ep(3,4) by blast
  then show ?case
    by (simp only: run_episodes.simps ep(1,2) most_recent_append
          episode_records_Cons [of clk "clock_reads m" u us] append_assoc)
qed

text \<open>
  Claim C5. With a store whose calls succeed, \<open>_add_to_history\<close> leaves the last 20
  entries of the old history followed by the new record, so at most 20. A run of
  episodes from a history of at most 20 entries leaves the last 20 of the old entries
  followed by the records of the run, in order; 25 episodes from an empty history leave
  the records of episodes 6 to 25.
\<close>

theorem history_keeps_most_recent_20:
  "\<not> get_raises (storage m) \<and> \<not> set_raises (storage m) \<longrightarrow>
     history_of (add_to_history ill t m) = most_recent 20 (history_of m @ [history_record_of ill t])
     \<and> length (history_of (add_to_history ill t m)) \<le> 20
     \<and> (length (history_of m) \<le> 20 \<longrightarrow>
          history_of (run_episodes clk us m)
            = most_recent 20 (history_of m @ episode_records clk (clock_reads m) us)
          \<and> length (history_of (run_episodes clk us m)) \<le> 20)
     \<and> (history_of m = [] \<and> length us = 25 \<longrightarrow>
          history_of (run_episodes clk us m) = drop 5 (episode_records clk (clock_reads m) us)
          \<and> length (history_of (run_episodes clk us m)) = 20)"
proof (intro impI, elim conjE)
  assume w: "\<not> get_raises (storage m)" "\<not> set_raises (storage m)"
  have one: "history_of (add_to_history ill t m)
               = most_recent 20 (history_of m @ [history_record_of ill t])"
    by (simp add: add_to_history_working [OF w]) (simp add: history_of_def)
  have many: "history_of (run_episodes clk us m)
            = most_recent 20 (history_of m @ episode_records clk (clock_reads m) us)"
    if "length (history_of m) \<le> 20"
    using run_episodes_history [OF w that] .
  have last: "history_of (run_episodes clk us m) = drop 5 (episode_records clk (clock_reads m) us)"
    if "history_of m = []" "length us = 25"
    using many that by (simp add: most_recent_def length_episode_records)
  show "history_of (add_to_history ill t m) = most_recent 20 (history_of m @ [history_record_of ill t])
     \<and> length (history_of (add_to_history ill t m)) \<le> 20
     \<and> (length (history_of m) \<le> 20 \<longrightarrow>
          history_of (run_episodes clk us m)
            = most_recent 20 (history_of m @ episode_records clk (clock_reads m) us)
          \<and> length (history_of (run_episodes clk us m)) \<le> 20)
     \<and> (history_of m = [] \<and> length us = 25 \<longrightarrow>
          history_of (run_episodes clk us m) = drop 5 (episode_records clk (clock_reads m) us)
          \<and> length (history_of (run_episodes clk us m)) = 20)"
    using one many last
    by (auto simp add: length_most_recent length_episode_records)
qed

lemma draw_0: "get_weighted_random_illness 0 = Inr MILD_COLD"
  by (simp add: get_weighted_random_illness_def random_choices_def weights_def bisect_def Let_def)

theorem history_keeps_most_recent_20_witness:
  "\<not> get_raises (storage healthy_manager) \<and> \<not> set_raises (storage healthy_manager)
   \<and> history_of healthy_manager = [] \<and> length (replicate 25 (0::real)) = 25
   \<and> length (history_of (run_episodes real (replicate 25 0) healthy_manager)) = 20
   \<and> map h_start_time (history_of (run_episodes real (replicate 25 0) healthy_manager))
       = [30, 36, 42, 48, 54, 60, 66, 72, 78, 84, 90, 96, 102, 108, 114, 120, 126, 132, 138, 144]
   \<and> map h_end_time (history_of (run_episodes real (replicate 25 0) healthy_manager))
       = [33, 39, 45, 51, 57, 63, 69, 75, 81, 87, 93, 99, 105, 111, 117, 123, 129, 135, 141, 147]"
proof -
  have a: "\<not> get_raises (storage healthy_manager)" "\<not> set_raises (storage healthy_manager)"
    "history_of healthy_manager = []" "clock_reads healthy_manager = 0"
    by (simp_all add: healthy_manager_def working_store_def history_of_def)
  have l: "length (replicate 25 (0::real)) = 25"
    by simp
  have r: "history_of (run_episodes real (replicate 25 0) healthy_manager)
             = drop 5 (episode_records real (clock_reads healthy_manager) (replicate 25 0))
           \<and> length (history_of (run_episodes real (replicate 25 0) healthy_manager)) = 20"
    using a(1,2,3) l
      history_keeps_most_recent_20 [of healthy_manager
        "\<lparr>illness_type = MILD_COLD, start_time = 0, severity = 0.3, stage = ''initial''\<rparr>" 0
        real "replicate 25 0"]
    by blast
  have b: "replicate 25 (0::real) = [0,0,0,0,0, 0,0,0,0,0, 0,0,0,0,0, 0,0,0,0,0, 0,0,0,0,0]"
    by (simp add: numeral_eq_Suc)
  have e: "map h_start_time (drop 5 (episode_records real 0 (replicate 25 0)))
       = [30, 36, 42, 48, 54, 60, 66, 72, 78, 84, 90, 96, 102, 108, 114, 120, 126, 132, 138, 144]"
    "map h_end_time (drop 5 (episode_records real 0 (replicate 25 0)))
       = [33, 39, 45, 51, 57, 63, 69, 75, 81, 87, 93, 99, 105, 111, 117, 123, 129, 135, 141, 147]"
    by (simp_all add: b draw_0 history_record_of_def)
  show ?thesis
    using a r e by (simp add: length_episode_records)
qed


section \<open>Loading and saving\<close>

lemma load_state_reset:
  "load_state_try clk m = Inl e \<Longrightarrow>
   load_state clk m = m\<lparr>current_illness := None, last_recovery_time := 0, cool_down_end_time := 0\<rparr>"
  by (simp add: load_state_def)

lemma load_state_try_get_raises: "get_raises (storage m) \<Longrightarrow> load_state_try clk m = Inl StorageError"
  by (simp add: load_state_try_def storage_get_state_def)

lemma load_state_try_bad_data:
  "\<not> get_raises (storage m) \<Longrightarrow> illness_state (storage m) = Some sd \<Longrightarrow>
   sd_current_illness sd = Some d \<Longrightarrow> dict_truthy d \<Longrightarrow> illness_of_data d = Inl e \<Longrightarrow>
   load_state_try clk m = Inl e"
  by (simp add: load_state_try_def storage_get_state_def)

lemma illness_of_data_raises:
  "d_type d = None \<or> d_start_time d = None
     \<or> (\<exists>v. d_type d = Some v \<and> IllnessType_of_value v = Inl ValueError) \<Longrightarrow>
   \<exists>e. illness_of_data d = Inl e"
  by (cases "d_type d"; cases "d_start_time d")
     (auto simp add: illness_of_data_def split: sum.splits)

lemma load_state_try_good_data:
  assumes "\<not> get_raises (storage m)" "illness_state (storage m) = Some sd"
    "sd_current_illness sd = Some d" "d_type d = Some (illness_type_value k)"
    "d_start_time d = Some t"
  shows "load_state_try clk m =
      Inr (log_health_status clk
            (m\<lparr>current_illness :=
                 Some \<lparr>illness_type = k, start_time = t,
                       severity = (case d_severity d of None \<Rightarrow> 0.5 | Some s \<Rightarrow> s),
                       stage = (case d_stage d of None \<Rightarrow> ''initial'' | Some s \<Rightarrow> s)\<rparr>,
               last_recovery_time := (case sd_last_recovery_time sd of None \<Rightarrow> 0 | Some v \<Rightarrow> v),
               cool_down_end_time := (case sd_cool_down_end_time sd of None \<Rightarrow> 0 | Some v \<Rightarrow> v)\<rparr>))"
  using assms
  by (simp add: load_state_try_def storage_get_state_def dict_truthy_def illness_of_data_def
        IllnessType_of_value_inverse)

lemma log_health_status_frame:
  "current_illness (log_health_status clk m) = current_illness m"
  "last_recovery_time (log_health_status clk m) = last_recovery_time m"
  "cool_down_end_time (log_health_status clk m) = cool_down_end_time m"
  "storage (log_health_status clk m) = storage m"
  by (simp_all add: log_health_status_def get_duration_hours_def time_time_def
        split: option.splits)

text \<open>
  Claim C7. When the stored state holds an illness dict with a known type and a start
  time, \<open>load_state\<close> rebuilds the active illness from it, with severity 0.5 and stage
  \<open>initial\<close> for an absent field, and reads the two timestamps (0 when absent). When
  the read raises, or the illness dict lacks its type or start time or names an unknown
  type, the result is the healthy state without cooldown. \<open>load_state\<close> returns a
  manager in every case: no exception reaches the caller.
\<close>

theorem load_state_defaults_and_reset:
  "(\<not> get_raises (storage m) \<and> illness_state (storage m) = Some sd
      \<and> sd_current_illness sd = Some d \<and> d_type d = Some (illness_type_value k)
      \<and> d_start_time d = Some t \<longrightarrow>
      current_illness (load_state clk m)
        = Some \<lparr>illness_type = k, start_time = t,
                severity = (case d_severity d of None \<Rightarrow> 0.5 | Some s \<Rightarrow> s),
                stage = (case d_stage d of None \<Rightarrow> ''initial'' | Some s \<Rightarrow> s)\<rparr>
      \<and> last_recovery_time (load_state clk m)
          = (case sd_last_recovery_time sd of None \<Rightarrow> 0 | Some v \<Rightarrow> v)
      \<and> cool_down_end_time (load_state clk m)
          = (case sd_cool_down_end_time sd of None \<Rightarrow> 0 | Some v \<Rightarrow> v))
   \<and> (get_raises (storage m)
        \<or> (illness_state (storage m) = Some sd \<and> sd_current_illness sd = Some d
              \<and> dict_truthy d
              \<and> (d_type d = None \<or> d_start_time d = None
                  \<or> (\<exists>v. d_type d = Some v \<and> IllnessType_of_value v = Inl ValueError))) \<longrightarrow>
        current_illness (load_state clk m) = None
        \<and> last_recovery_time (load_state clk m) = 0
        \<and> cool_down_end_time (load_state clk m) = 0)"
proof (intro conjI impI)
  assume "\<not> get_raises (storage m) \<and> illness_state (storage m) = Some sd
      \<and> sd_current_illness sd = Some d \<and> d_type d = Some (illness_type_value k)
      \<and> d_start_time d = Some t"
  then have ok: "load_state_try clk m =
      Inr (log_health_status clk
            (m\<lparr>current_illness :=
                 Some \<lparr>illness_type = k, start_time = t,
                       severity = (case d_severity d of None \<Rightarrow> 0.5 | Some s \<Rightarrow> s),
                       stage = (case d_stage d of None \<Rightarrow> ''initial'' | Some s \<Rightarrow> s)\<rparr>,
               last_recovery_time := (case sd_last_recovery_time sd of None \<Rightarrow> 0 | Some v \<Rightarrow> v),
               cool_down_end_time := (case sd_cool_down_end_time sd of None \<Rightarrow> 0 | Some v \<Rightarrow> v)\<rparr>))"
    using load_state_try_good_data by blast
  show "current_illness (load_state clk m)
        = Some \<lparr>illness_type = k, start_time = t,
                severity = (case d_severity d of None \<Rightarrow> 0.5 | Some s \<Rightarrow> s),
                stage = (case d_stage d of None \<Rightarrow> ''initial'' | Some s \<Rightarrow> s)\<rparr>"
    and "last_recovery_time (load_state clk m)
          = (case sd_last_recovery_time sd of None \<Rightarrow> 0 | Some v \<Rightarrow> v)"
    and "cool_down_end_time (load_state clk m)
          = (case sd_cool_down_end_time sd of None \<Rightarrow> 0 | Some v \<Rightarrow> v)"
    by (simp_all add: load_state_def ok log_health_status_frame)
next
  assume f: "get_raises (storage m)
        \<or> (illness_state (storage m) = Some sd \<and> sd_current_illness sd = Some d
              \<and> dict_truthy d
              \<and> (d_type d = None \<or> d_start_time d = None
                  \<or> (\<exists>v. d_type d = Some v \<and> IllnessType_of_value v = Inl ValueError)))"
  have "\<exists>e. load_state_try clk m = Inl e"
  proof (cases "get_raises (storage m)")
    case True
    then show ?thesis by (simp add: load_state_try_get_raises)
  next
    case False
    with f obtain e where "illness_of_data d = Inl e"
      using illness_of_data_raises [of d] by blast
    with f False show ?thesis
      using load_state_try_bad_data [of m sd d e clk] by blast
  qed
  then obtain e where "load_state_try clk m = Inl e" ..
  from load_state_reset [OF this]
  show "current_illness (load_state clk m) = None"
    and "last_recovery_time (load_state clk m) = 0"
    and "cool_down_end_time (load_state clk m) = 0"
    by simp_all
qed

theorem load_state_defaults_and_reset_witness:
  "current_illness
     (load_state (\<lambda>_. 100)
        (healthy_manager
           \<lparr>storage := working_store
              \<lparr>illness_state :=
                 Some (empty_state_data
                   \<lparr>sd_current_illness :=
                      Some \<lparr>d_type = Some MILD_COLD_value, d_start_time = Some 5,
                            d_severity = None, d_stage = None\<rparr>\<rparr>)\<rparr>\<rparr>))
     = Some \<lparr>illness_type = MILD_COLD, start_time = 5, severity = 0.5, stage = ''initial''\<rparr>
   \<and> load_state (\<lambda>_. 100)
        (severe_cold_manager
           \<lparr>storage := working_store\<lparr>get_raises := True\<rparr>, last_recovery_time := 7,
             cool_down_end_time := 9\<rparr>)
     = healthy_manager\<lparr>storage := working_store\<lparr>get_raises := True\<rparr>\<rparr>
   \<and> current_illness
       (load_state (\<lambda>_. 100)
        (healthy_manager
           \<lparr>storage := working_store
              \<lparr>illness_state :=
                 Some (empty_state_data
                   \<lparr>sd_current_illness :=
                      Some \<lparr>d_type = Some ''flu'', d_start_time = Some 5,
                            d_severity = Some 0.1, d_stage = None\<rparr>,
                     sd_cool_down_end_time := Some 500\<rparr>)\<rparr>,
             cool_down_end_time := 9\<rparr>)) = None
   \<and> cool_down_end_time
       (load_state (\<lambda>_. 100)
        (healthy_manager
           \<lparr>storage := working_store
              \<lparr>illness_state :=
                 Some (empty_state_data
                   \<lparr>sd_current_illness :=
                      Some \<lparr>d_type = Some ''flu'', d_start_time = Some 5,
                            d_severity = Some 0.1, d_stage = None\<rparr>,
                     sd_cool_down_end_time := Some 500\<rparr>)\<rparr>,
             cool_down_end_time := 9\<rparr>)) = 0"
proof -
  let ?d = "\<lparr>d_type = Some MILD_COLD_value, d_start_time = Some 5,
             d_severity = None, d_stage = None\<rparr>"
  let ?sd = "empty_state_data\<lparr>sd_current_illness := Some ?d\<rparr>"
  let ?m1 = "healthy_manager\<lparr>storage := working_store\<lparr>illness_state := Some ?sd\<rparr>\<rparr>"
  let ?m2 = "severe_cold_manager
           \<lparr>storage := working_store\<lparr>get_raises := True\<rparr>, last_recovery_time := 7,
             cool_down_end_time := 9\<rparr>"
  let ?d3 = "\<lparr>d_type = Some ''flu'', d_start_time = Some 5,
              d_severity = Some 0.1, d_stage = None\<rparr>"
  let ?sd3 = "empty_state_data\<lparr>sd_current_illness := Some ?d3, sd_cool_down_end_time := Some 500\<rparr>"
  let ?m3 = "healthy_manager
           \<lparr>storage := working_store\<lparr>illness_state := Some ?sd3\<rparr>, cool_down_end_time := 9\<rparr>"
  have flu: "IllnessType_of_value ''flu'' = Inl ValueError"
    by (simp add: IllnessType_of_value_def get_all_illness_types_def value_defs)
  have 1: "current_illness (load_state (\<lambda>_. 100) ?m1)
     = Some \<lparr>illness_type = MILD_COLD, start_time = 5, severity = 0.5, stage = ''initial''\<rparr>"
    using load_state_defaults_and_reset [of ?m1 ?sd ?d MILD_COLD 5 "\<lambda>_. 100"]
    by (simp add: healthy_manager_def working_store_def)
  have 2: "current_illness (load_state (\<lambda>_. 100) ?m2) = None
      \<and> last_recovery_time (load_state (\<lambda>_. 100) ?m2) = 0
      \<and> cool_down_end_time (load_state (\<lambda>_. 100) ?m2) = 0"
    using load_state_defaults_and_reset [of ?m2 ?sd ?d MILD_COLD 5 "\<lambda>_. 100"]
    by (simp add: severe_cold_manager_def healthy_manager_def working_store_def)
  have r2: "load_state (\<lambda>_. 100) ?m2 = healthy_manager\<lparr>storage := working_store\<lparr>get_raises := True\<rparr>\<rparr>"
    using 2 by (simp add: load_state_def load_state_try_get_raises severe_cold_manager_def
          healthy_manager_def working_store_def)
  have 3: "current_illness (load_state (\<lambda>_. 100) ?m3) = None
      \<and> last_recovery_time (load_state (\<lambda>_. 100) ?m3) = 0
      \<and> cool_down_end_time (load_state (\<lambda>_. 100) ?m3) = 0"
    using flu load_state_defaults_and_reset [of ?m3 ?sd3 ?d3 MILD_COLD 5 "\<lambda>_. 100"]
    by (simp add: healthy_manager_def working_store_def dict_truthy_def)
  show ?thesis
    using 1 r2 3 by simp
qed

lemma load_state_try_no_illness:
  assumes "\<not> get_raises (storage m)" "illness_state (storage m) = Some sd"
    "sd_current_illness sd = None"
  shows "load_state_try clk m =
      Inr (log_health_status clk
            (m\<lparr>last_recovery_time := (case sd_last_recovery_time sd of None \<Rightarrow> 0 | Some v \<Rightarrow> v),
               cool_down_end_time := (case sd_cool_down_end_time sd of None \<Rightarrow> 0 | Some v \<Rightarrow> v)\<rparr>))"
  using assms by (simp add: load_state_try_def storage_get_state_def)

lemma save_state_stores:
  "\<not> set_raises (storage m) \<Longrightarrow>
   illness_state (storage (save_state clk m)) =
     Some \<lparr>sd_current_illness = map_option illness_to_data (current_illness m),
           sd_last_recovery_time = Some (last_recovery_time m),
           sd_cool_down_end_time = Some (cool_down_end_time m),
           sd_last_update = Some (clk (clock_reads m))\<rparr>"
  by (simp add: save_state_def time_time_def storage_set_state_def)

text \<open>
  Claim C8. With a store whose calls succeed, \<open>save_state\<close> followed by the
  construction of a new manager on the same store (which calls \<open>load_state\<close>) gives
  back the active illness (kind, start time, severity and stage, or none), the last
  recovery time and the cooldown deadline. The clocks of the two calls are arbitrary.
\<close>

theorem save_then_load_roundtrip:
  "\<not> get_raises (storage m) \<and> \<not> set_raises (storage m) \<longrightarrow>
     current_illness (new_manager clk' n (storage (save_state clk m))) = current_illness m
     \<and> last_recovery_time (new_manager clk' n (storage (save_state clk m))) = last_recovery_time m
     \<and> cool_down_end_time (new_manager clk' n (storage (save_state clk m))) = cool_down_end_time m"
proof (intro impI, elim conjE)
  assume w: "\<not> get_raises (storage m)" "\<not> set_raises (storage m)"
  let ?st = "storage (save_state clk m)"
  let ?m0 = "\<lparr>storage = ?st, current_illness = None, last_recovery_time = 0,
              cool_down_end_time = 0, clock_reads = n\<rparr>"
  note st = save_state_stores [OF w(2), of clk]
  have g: "\<not> get_raises (storage ?m0)"
    using w(1) by (simp add: save_state_frame)
  show "current_illness (new_manager clk' n ?st) = current_illness m
     \<and> last_recovery_time (new_manager clk' n ?st) = last_recovery_time m
     \<and> cool_down_end_time (new_manager clk' n ?st) = cool_down_end_time m"
  proof (cases "current_illness m")
    case None
    then show ?thesis
      using load_state_try_no_illness [of ?m0 _ clk'] g st
      by (simp add: new_manager_def load_state_def log_health_status_frame)
  next
    case (Some ill)
    then have "current_illness m = Some \<lparr>illness_type = illness_type ill, start_time = start_time ill,
        severity = severity ill, stage = stage ill\<rparr>"
      by simp
    then show ?thesis
      using load_state_try_good_data [of ?m0 _ "illness_to_data ill" "illness_type ill"
          "start_time ill" clk'] g st
      by (simp add: new_manager_def load_state_def log_health_status_frame illness_to_data_def)
  qed
qed


theorem save_then_load_roundtrip_witness:
  "\<not> get_raises (storage severe_cold_manager) \<and> \<not> set_raises (storage severe_cold_manager)
   \<and> current_illness
        (new_manager (\<lambda>_. 200) 0
           (storage (save_state (\<lambda>_. 100)
              (severe_cold_manager\<lparr>last_recovery_time := 7, cool_down_end_time := 9\<rparr>))))
       = Some \<lparr>illness_type = SEVERE_COLD, start_time = 0, severity = 0.8,
               stage = ''recovering''\<rparr>
   \<and> last_recovery_time
        (new_manager (\<lambda>_. 200) 0
           (storage (save_state (\<lambda>_. 100)
              (severe_cold_manager\<lparr>last_recovery_time := 7, cool_down_end_time := 9\<rparr>)))) = 7
   \<and> cool_down_end_time
        (new_manager (\<lambda>_. 200) 0
           (storage (save_state (\<lambda>_. 100)
              (severe_cold_manager\<lparr>last_recovery_time := 7, cool_down_end_time := 9\<rparr>)))) = 9
   \<and> current_illness
        (new_manager (\<lambda>_. 200) 0 (storage (save_state (\<lambda>_. 100) healthy_manager))) = None"
  using save_then_load_roundtrip
      [of "severe_cold_manager\<lparr>last_recovery_time := 7, cool_down_end_time := 9\<rparr>"
          "\<lambda>_. 200" 0 "\<lambda>_. 100"]
    save_then_load_roundtrip [of healthy_manager "\<lambda>_. 200" 0 "\<lambda>_. 100"]
  by (simp add: severe_cold_manager_def healthy_manager_def working_store_def)

section \<open>Advancing the state\<close>

lemmas catalog_defs =
  get_illness_duration_def get_illness_duration_in_def ILLNESS_DURATION_HOURS_def
  get_possible_transitions_def get_possible_transitions_in_def ILLNESS_TRANSITIONS_def
  get_illness_severity_def get_illness_severity_in_def ILLNESS_SEVERITY_def dict_get_def

text \<open>
  Once the elapsed time has reached a positive nominal duration, the stage computed by
  \<open>_update_illness_stage\<close> is \<open>recovering\<close>. So whenever \<open>update_illness_state\<close>
  takes a transition, at a call whose clock readings all equal \<open>now\<close>, the new illness
  (a successor, started at \<open>now\<close>, with its catalog severity) ends the call in stage
  \<open>recovering\<close>.
\<close>

lemma update_illness_stage_late:
  assumes "current_illness m = Some ill" "0 < e" "e \<le> d"
  shows "current_illness (update_illness_stage clk d e m) = Some (ill\<lparr>stage := ''recovering''\<rparr>)"
proof -
  have "1 \<le> d / e"
    using assms(2,3) by simp
  then have "\<not> d / e < 0.3" "\<not> d / e < 0.7"
    by linarith+
  then show ?thesis
    using assms(1,2)
    by (cases ill) (simp add: update_illness_stage_def save_state_frame Let_def)
qed

lemma transition_stage_is_recovering:
  assumes "current_illness m = Some ill"
    and "get_illness_duration (illness_type ill) \<le> (now - start_time ill) / 3600"
    and "get_possible_transitions (illness_type ill) \<noteq> []"
    and "u < 0.7"
  shows "\<exists>k \<in> set (get_possible_transitions (illness_type ill)).
           current_illness (update_illness_state (\<lambda>_. now) u pick m)
             = Some \<lparr>illness_type = k, start_time = now, severity = get_illness_severity k,
                     stage = ''recovering''\<rparr>"
proof -
  let ?ps = "get_possible_transitions (illness_type ill)"
  let ?k = "?ps ! (pick mod length ?ps)"
  let ?m2 = "m\<lparr>clock_reads := Suc (Suc (clock_reads m))\<rparr>"
  have k: "?k \<in> set ?ps"
    using assms(3) by simp
  have t: "current_illness (transition_to_illness (\<lambda>_. now) ?k ?m2)
             = Some \<lparr>illness_type = ?k, start_time = now, severity = get_illness_severity ?k,
                     stage = ''initial''\<rparr>"
    by (simp add: transition_to_illness_def time_time_def save_state_frame)
  have "update_illness_state (\<lambda>_. now) u pick m
          = update_illness_stage (\<lambda>_. now) ((now - start_time ill) / 3600)
              (get_illness_duration (illness_type ill))
              (transition_to_illness (\<lambda>_. now) ?k ?m2)"
    using assms
    by (simp add: update_illness_state_def time_time_def get_duration_hours_def
          random_choice_def Let_def)
  then have "current_illness (update_illness_state (\<lambda>_. now) u pick m)
          = Some \<lparr>illness_type = ?k, start_time = now, severity = get_illness_severity ?k,
                     stage = ''recovering''\<rparr>"
    using update_illness_stage_late [OF t duration_positive assms(2)] by simp
  with k show ?thesis by blast
qed

text \<open>
  A severe cold that began at time 0, updated at 49 hours with the draw \<open>u = 0\<close> (the
  branch taken with probability 0.7): the whole manager after the call.
\<close>

lemma severe_cold_transition:
  "update_illness_state (\<lambda>_. 176400) 0 0 severe_cold_manager =
     \<lparr>storage = working_store
        \<lparr>illness_state :=
           Some \<lparr>sd_current_illness =
                   Some \<lparr>d_type = Some MILD_COLD_value, d_start_time = Some 176400,
                         d_severity = Some 0.3, d_stage = Some ''recovering''\<rparr>,
                 sd_last_recovery_time = Some 0, sd_cool_down_end_time = Some 0,
                 sd_last_update = Some 176400\<rparr>\<rparr>,
      current_illness =
        Some \<lparr>illness_type = MILD_COLD, start_time = 176400, severity = 0.3,
              stage = ''recovering''\<rparr>,
      last_recovery_time = 0, cool_down_end_time = 0, clock_reads = 5\<rparr>"
  by (simp add: update_illness_state_def severe_cold_manager_def healthy_manager_def
        working_store_def time_time_def get_duration_hours_def catalog_defs random_choice_def
        transition_to_illness_def save_state_def storage_set_state_def update_illness_stage_def
        illness_to_data_def Let_def)

text \<open>
  Claim C1, evaluated on that input. The elapsed 49 hours exceed the nominal 48, the
  list of successors is \<open>[MILD_COLD]\<close>, and the call leaves a mild cold with start
  time \<open>now\<close> and the catalog severity of the mild cold; its stage is \<open>recovering\<close>,
  not \<open>initial\<close>: \<open>_update_illness_stage\<close> is given the elapsed time and the
  nominal duration of the severe cold that has just ended.
\<close>

theorem transition_leaves_stage_recovering:
  "current_illness severe_cold_manager
     = Some \<lparr>illness_type = SEVERE_COLD, start_time = 0, severity = 0.8, stage = ''recovering''\<rparr>
   \<and> get_illness_duration SEVERE_COLD = 48
   \<and> get_possible_transitions SEVERE_COLD = [MILD_COLD]
   \<and> current_illness (update_illness_state (\<lambda>_. 49 * 3600) 0 0 severe_cold_manager)
       = Some \<lparr>illness_type = MILD_COLD, start_time = 49 * 3600,
               severity = get_illness_severity MILD_COLD, stage = ''recovering''\<rparr>"
  using severe_cold_transition
  by (simp add: severe_cold_manager_def catalog_defs)

text \<open>
  Claim C2, evaluated on the same input. A second call at the same \<open>now\<close> takes no
  transition, yet changes the stage of the mild cold from \<open>recovering\<close> to
  \<open>initial\<close>: the two calls do not leave the same state.
\<close>

theorem second_update_changes_stage:
  "current_illness (update_illness_state (\<lambda>_. 49 * 3600) 0 0 severe_cold_manager)
     = Some \<lparr>illness_type = MILD_COLD, start_time = 49 * 3600, severity = 0.3,
             stage = ''recovering''\<rparr>
   \<and> current_illness
       (update_illness_state (\<lambda>_. 49 * 3600) 0 0
          (update_illness_state (\<lambda>_. 49 * 3600) 0 0 severe_cold_manager))
     = Some \<lparr>illness_type = MILD_COLD, start_time = 49 * 3600, severity = 0.3,
             stage = ''initial''\<rparr>"
proof -
  have "current_illness
       (update_illness_state (\<lambda>_. 176400) 0 0
          (update_illness_state (\<lambda>_. 176400) 0 0 severe_cold_manager))
     = Some \<lparr>illness_type = MILD_COLD, start_time = 176400, severity = 0.3, stage = ''initial''\<rparr>"
    unfolding severe_cold_transition
    by (simp add: update_illness_state_def time_time_def get_duration_hours_def catalog_defs
          save_state_def storage_set_state_def update_illness_stage_def Let_def)
  then show ?thesis
    using severe_cold_transition by simp
qed

section \<open>Reading the history\<close>

text \<open>
  For a positive limit the slice \<open>history[-limit:]\<close> is the last \<open>limit\<close> records,
  and a read that raises gives the empty list.
\<close>

lemma get_illness_history_positive_limit:
  "0 < n \<Longrightarrow> \<not> get_raises (storage m) \<Longrightarrow>
   get_illness_history (int n) m = most_recent n (history_of m)"
  by (simp add: get_illness_history_def storage_get_history_def history_of_def
        py_slice_from_last most_recent_def)

lemma get_illness_history_read_failure:
  "get_raises (storage m) \<Longrightarrow> get_illness_history limit m = []"
  by (simp add: get_illness_history_def storage_get_history_def)

text \<open>
  Claim C10, evaluated at limit 0 on a history of two records: \<open>history[-0:]\<close> is
  \<open>history[0:]\<close>, so the call returns both records, not the empty list.
\<close>

theorem history_limit_zero_returns_all:
  "get_illness_history 0
     (healthy_manager
        \<lparr>storage := working_store
           \<lparr>illness_history :=
              Some [\<lparr>h_type = SEVERE_COLD_value, h_start_time = 0, h_end_time = 176400,
                     h_duration_hours = 49, h_severity = 0.8\<rparr>,
                    \<lparr>h_type = MILD_COLD_value, h_start_time = 176400, h_end_time = 349200,
                     h_duration_hours = 48, h_severity = 0.3\<rparr>]\<rparr>\<rparr>)
   = [\<lparr>h_type = SEVERE_COLD_value, h_start_time = 0, h_end_time = 176400,
       h_duration_hours = 49, h_severity = 0.8\<rparr>,
      \<lparr>h_type = MILD_COLD_value, h_start_time = 176400, h_end_time = 349200,
       h_duration_hours = 48, h_severity = 0.3\<rparr>]"
  by (simp add: get_illness_history_def storage_get_history_def py_slice_from_def
        healthy_manager_def working_store_def)

end
